theory Spec2Isabelle
  imports Main "HOL-Library.Sublist" "HOL-Library.Multiset"
begin

section \<open>Go strings and the library functions the parser uses\<close>

text \<open>
  A Go string is a sequence of bytes, modelled as \<open>string\<close>. The functions of this
  section are the ones of the Go standard library (\<open>strings\<close>, \<open>path\<close>,
  \<open>path/filepath\<close> on a system whose separator is the slash) that the source calls,
  written out from their documented behaviour.
\<close>

text \<open>
  \<open>cut sep s\<close> finds the first occurrence of \<open>sep\<close> in \<open>s\<close> and returns the text
  before it and the text after it (\<open>strings.Index\<close> followed by the two slices that
  \<open>strings.Split\<close> takes).
\<close>

fun cut :: "string \<Rightarrow> string \<Rightarrow> (string \<times> string) option" where
  "cut sep [] = (if sep = [] then Some ([], []) else None)"
| "cut sep (c # cs) =
     (if prefix sep (c # cs) then Some ([], drop (length sep) (c # cs))
      else (case cut sep cs of None \<Rightarrow> None | Some (a, b) \<Rightarrow> Some (c # a, b)))"

lemma cut_shorter: "sep \<noteq> [] \<Longrightarrow> cut sep s = Some (a, b) \<Longrightarrow> length b < length s"
proof (induction s arbitrary: a b)
  case Nil
  then show ?case by simp
next
  case (Cons c cs)
  show ?case
  proof (cases "prefix sep (c # cs)")
    case True
    with Cons.prems show ?thesis by (cases sep) auto
  next
    case False
    with Cons.prems obtain a' where "cut sep cs = Some (a', b)"
      by (auto split: option.splits)
    with Cons.IH [OF Cons.prems(1)] show ?thesis by fastforce
  qed
qed

text \<open>
  \<open>strings.Split(s, sep)\<close> for a non-empty separator: the pieces between the
  non-overlapping occurrences of \<open>sep\<close>, found from the left. With an empty separator
  Go splits after each character; the source never does that, and the model gives the
  bytes one by one there.
\<close>

function Split_sep :: "string \<Rightarrow> string \<Rightarrow> string list" where
  "Split_sep sep s =
     (if sep = [] then map (\<lambda>c. [c]) s
      else (case cut sep s of None \<Rightarrow> [s] | Some (a, b) \<Rightarrow> a # Split_sep sep b))"
  by pat_completeness auto
termination
  by (relation "measure (\<lambda>(sep, s). length s)") (auto dest: cut_shorter)

declare Split_sep.simps [simp del]

definition Split :: "string \<Rightarrow> string \<Rightarrow> string list" where
  "Split s sep = Split_sep sep s"

text \<open>\<open>strings.Contains(s, sub)\<close>, which is \<open>strings.Index(s, sub) > -1\<close>.\<close>

fun Contains :: "string \<Rightarrow> string \<Rightarrow> bool" where
  "Contains [] sub = (sub = [])"
| "Contains (c # cs) sub = (prefix sub (c # cs) \<or> Contains cs sub)"

text \<open>\<open>path.Split\<close>: the path up to and with its last slash, and the rest.\<close>

definition path_Split :: "string \<Rightarrow> string \<times> string" where
  "path_Split p =
     (let name = rev (takeWhile (\<lambda>c. c \<noteq> CHR ''/'') (rev p))
      in (take (length p - length name) p, name))"

text \<open>
  \<open>filepath.Ext\<close>: the suffix of the last path element that begins at its last dot,
  empty when that element has no dot.
\<close>

definition filepath_Ext :: "string \<Rightarrow> string" where
  "filepath_Ext p =
     (let name = rev (takeWhile (\<lambda>c. c \<noteq> CHR ''/'') (rev p))
      in if CHR ''.'' \<in> set name
         then CHR ''.'' # rev (takeWhile (\<lambda>c. c \<noteq> CHR ''.'') (rev name))
         else [])"

text \<open>
  \<open>filepath.Base\<close>: the last element of the path, trailing slashes removed first;
  \<open>"."\<close> for the empty path and \<open>"/"\<close> for a path of slashes only.
\<close>

definition filepath_Base :: "string \<Rightarrow> string" where
  "filepath_Base p =
     (if p = [] then ''.''
      else (let q = rev (dropWhile (\<lambda>c. c = CHR ''/'') (rev p));
                name = rev (takeWhile (\<lambda>c. c \<noteq> CHR ''/'') (rev q))
            in if name = [] then ''/'' else name))"

section \<open>Errors and panics\<close>

text \<open>
  An \<open>error\<close> value of the source is either a message (\<open>errors.Error\<close>,
  \<open>fmt.Errorf\<close>, the error of a finished process) or an \<open>errors.ErrorList\<close>. A panic
  of the Go runtime is not an error value: a function that can panic returns
  \<open>panic + 'a\<close>.
\<close>

datatype error = Error string | ErrorList "error list"

datatype panic = IndexOutOfRange | NilDereference | ReflectPanic

definition ErrExpectedEndParen :: error where
  "ErrExpectedEndParen = Error ''expected ending parenthesis''"

definition ErrInvalidDir :: error where
  "ErrInvalidDir = Error ''invalid directory, cannot be empty''"

definition ErrPluginKeyExists :: error where
  "ErrPluginKeyExists = Error ''plugin cannot be added, key already exists''"

definition ErrPluginNotLoaded :: error where
  "ErrPluginNotLoaded = Error ''plugin with that key has not been loaded''"

definition ErrNotAddressable :: error where
  "ErrNotAddressable = Error ''provided backend must be addressable''"

section \<open>The identifier parser (utils.go)\<close>

text \<open>
  \<open>ParseKey\<close>: the key is split at every \<open>" as "\<close>; the first piece is the new key,
  the second piece, when there is one, the alias. Otherwise the alias is the last path
  element of the key cut at the first hyphen, then at the first at-sign, then at the
  first hash. \<open>strings.Split\<close> returns at least one piece, so the reads of index 0 are
  in range.
\<close>

definition ParseKey :: "string \<Rightarrow> string \<times> string" where
  "ParseKey key =
     (let spl = Split key '' as '';
          newKey = hd spl
      in if length spl > 1 then (newKey, spl ! 1)
         else (let name = snd (path_Split newKey);
                   alias1 = hd (Split name ''-'');
                   alias2 = hd (Split alias1 ''@'');
                   alias3 = hd (Split alias2 ''#'')
               in (newKey, alias3)))"

text \<open>
  \<open>getHandlerParts\<close>. The source reads \<open>spl[1]\<close> without a length check and reads
  \<open>argsStr[len(argsStr)-1]\<close> without checking that \<open>argsStr\<close> is non-empty: both are
  index-out-of-range panics of the Go runtime. The result is the tuple
  \<open>(key, handler, args, err)\<close> of the source; the \<open>nil\<close> slice is the empty list.
\<close>

definition getHandlerParts ::
  "string \<Rightarrow> panic + (string \<times> string \<times> string list \<times> error option)" where
  "getHandlerParts handlerKey =
     (let spl = Split handlerKey ''.''
      in if length spl < 2 then Inl IndexOutOfRange
         else (let key = spl ! 0;
                   handler = spl ! 1;
                   spl2 = Split handler ''(''
               in if length spl2 = 1 then Inr (key, handler, [], None)
                  else (let handler2 = spl2 ! 0;
                            argsStr = spl2 ! 1
                        in if argsStr = [] then Inl IndexOutOfRange
                           else if last argsStr \<noteq> CHR '')''
                           then Inr (key, handler2, [], Some ErrExpectedEndParen)
                           else Inr (key, handler2, Split (butlast argsStr) '','', None))))"

section \<open>The world outside: processes, files, loaded code\<close>

text \<open>
  The source runs \<open>git\<close> and \<open>go\<close> as child processes, asks the file system whether a
  path exists, loads object code and calls functions of loaded plugins. Each such step
  is an event; the events so far are the trace. What a step yields is given by an
  environment, a function of the trace so far and of the step, so that an answer may
  depend on everything done before (a file exists once it has been built). The working
  directory of a process is a function of the repository URL (\<open>getGitDir\<close>,
  \<open>getGoDir\<close>) and is not kept in the event; log output is not modelled.
\<close>

datatype cmd =
    GitCheckout string string
  | GitFetchTags string
  | GitPull string
  | GoModDownload string
  | GoGet string
  | GoBuild string string
  | GoTest string
  | RegSymbol
  | ReadObjs string
  | LoadModule string
  | CallErrorFunc nat
  | CallInterfaceFunc nat

text \<open>
  The outcome of \<open>cmd.Run()\<close>: its error (\<open>None\<close> for \<open>nil\<close>) as a message, and
  what the process wrote to its standard output and standard error.
\<close>

record proc =
  run_err :: "string option"
  stdout :: string
  stderr :: string

datatype file_info = IsDir | IsFile

text \<open>
  Values behind \<open>interface{}\<close>, as far as \<open>reflect\<close> tells them apart: the \<open>nil\<close>
  interface, a pointer (with the type it points to; \<open>None\<close> is the \<open>nil\<close> pointer,
  otherwise the address of a variable), and any other value with the name of its type.
\<close>

datatype gtype = Concrete string | Iface string | PtrTo gtype

datatype gvalue = GNil | GPtr gtype "nat option" | GVal string nat

type_synonym CodeModule = "(string \<times> nat) list"

record env =
  run :: "cmd list \<Rightarrow> cmd \<Rightarrow> proc"
  stat_file :: "cmd list \<Rightarrow> string \<Rightarrow> file_info option"
  stat_source :: "cmd list \<Rightarrow> string \<Rightarrow> file_info option"
  loaded_module :: "cmd list \<Rightarrow> string \<Rightarrow> CodeModule"
  call_error :: "cmd list \<Rightarrow> nat \<Rightarrow> error option"
  call_interface :: "cmd list \<Rightarrow> nat \<Rightarrow> gvalue"

text \<open>
  The parts of the Go library that are taken as given: \<open>url.Parse\<close> (of the result
  only \<open>Path\<close> and \<open>Fragment\<close> are read), \<open>path.Join\<close> and \<open>filepath.Join\<close> (the
  same function where the separator is the slash), and whether a type implements an
  interface type.
\<close>

record URL =
  Path :: string
  Fragment :: string

record golib =
  url_Parse :: "string \<Rightarrow> error + URL"
  path_Join :: "string list \<Rightarrow> string"
  type_implements :: "gtype \<Rightarrow> gtype \<Rightarrow> bool"

text \<open>
  \<open>err.Error()\<close>. For a list the messages are given one per line; no function below
  reads the message of a list.
\<close>

primrec Error_msg :: "error \<Rightarrow> string" where
  "Error_msg (Error m) = m"
| "Error_msg (ErrorList es) = concat (map (\<lambda>e. Error_msg e @ [CHR 0x0A]) es)"

text \<open>\<open>errors.ErrIsClosed\<close> of the errors library the source imports.\<close>

definition ErrIsClosed :: error where
  "ErrIsClosed = Error ''cannot perform action on closed instance''"

text \<open>
  \<open>errors.ErrorList\<close>: \<open>Push\<close> appends an error and ignores \<open>nil\<close>; \<open>Err\<close> is
  \<open>nil\<close> for the empty list and the list otherwise.
\<close>

definition Push :: "error list \<Rightarrow> error option \<Rightarrow> error list" where
  "Push errs e = (case e of None \<Rightarrow> errs | Some x \<Rightarrow> errs @ [x])"

definition Err :: "error list \<Rightarrow> error option" where
  "Err errs = (if errs = [] then None else Some (ErrorList errs))"

text \<open>Running a process: its outcome, and the trace with the event added.\<close>

definition exec :: "env \<Rightarrow> cmd \<Rightarrow> cmd list \<Rightarrow> proc \<times> cmd list" where
  "exec e c tr = (run e tr c, tr @ [c])"

section \<open>The tool wrappers (utils.go)\<close>

text \<open>
  \<open>gitFetchTags\<close> returns the error of the run, whatever was written to standard
  error.
\<close>

definition gitFetchTags :: "env \<Rightarrow> string \<Rightarrow> cmd list \<Rightarrow> error option \<times> cmd list" where
  "gitFetchTags e url tr =
     (case exec e (GitFetchTags url) tr of (r, tr1) \<Rightarrow> (map_option Error (run_err r), tr1))"

text \<open>
  \<open>gitCheckout\<close> returns \<open>(resp, err)\<close>. A clean run gives the standard output. Otherwise
  the standard error text decides, in this order: empty, or holding \<open>Already on\<close>: the
  error of the run with no response; holding \<open>Switched to\<close>: the text as response with
  the error of the run; anything else: the text as the error.
\<close>

definition gitCheckout ::
  "env \<Rightarrow> string \<Rightarrow> string \<Rightarrow> cmd list \<Rightarrow> (string \<times> error option) \<times> cmd list" where
  "gitCheckout e url br tr =
     (case exec e (GitCheckout url br) tr of (r, tr1) \<Rightarrow>
        if run_err r = None \<and> stderr r = [] then ((stdout r, None), tr1)
        else if stderr r = [] then (([], map_option Error (run_err r)), tr1)
        else if Contains (stderr r) ''Already on''
        then (([], map_option Error (run_err r)), tr1)
        else if Contains (stderr r) ''Switched to''
        then ((stderr r, map_option Error (run_err r)), tr1)
        else (([], Some (Error (stderr r))), tr1))"

definition gitPull :: "env \<Rightarrow> string \<Rightarrow> cmd list \<Rightarrow> (string \<times> error option) \<times> cmd list" where
  "gitPull e url tr =
     (case exec e (GitPull url) tr of (r, tr1) \<Rightarrow>
        (case run_err r of
           Some m \<Rightarrow> (([], Some (Error (if stderr r \<noteq> [] then stderr r else m))), tr1)
         | None \<Rightarrow>
             if Contains (stdout r) ''up to date'' then (([], None), tr1)
             else ((stdout r, None), tr1)))"

definition updatePluginDependencies ::
  "env \<Rightarrow> string \<Rightarrow> cmd list \<Rightarrow> error option \<times> cmd list" where
  "updatePluginDependencies e url tr =
     (case exec e (GoModDownload url) tr of (r, tr1) \<Rightarrow>
        (case run_err r of Some m \<Rightarrow> (Some (Error (stderr r)), tr1) | None \<Rightarrow> (None, tr1)))"

definition goGet :: "env \<Rightarrow> string \<Rightarrow> cmd list \<Rightarrow> error option \<times> cmd list" where
  "goGet e url tr =
     (case exec e (GoGet url) tr of (r, tr1) \<Rightarrow>
        (case run_err r of Some m \<Rightarrow> (Some (Error (stderr r)), tr1) | None \<Rightarrow> (None, tr1)))"

definition goBuild :: "env \<Rightarrow> string \<Rightarrow> string \<Rightarrow> cmd list \<Rightarrow> error option \<times> cmd list" where
  "goBuild e url file tr =
     (case exec e (GoBuild url file) tr of (r, tr1) \<Rightarrow>
        (case run_err r of
           Some m \<Rightarrow> (Some (Error (if stderr r \<noteq> [] then stderr r else m)), tr1)
         | None \<Rightarrow> (None, tr1)))"

text \<open>\<open>goTest\<close> returns \<open>(pass, err)\<close>.\<close>

definition goTest :: "env \<Rightarrow> string \<Rightarrow> cmd list \<Rightarrow> (bool \<times> error option) \<times> cmd list" where
  "goTest e url tr =
     (case exec e (GoTest url) tr of (r, tr1) \<Rightarrow>
        (case run_err r of
           Some m \<Rightarrow> ((False, Some (Error (stderr r))), tr1)
         | None \<Rightarrow> ((Contains (stdout r) ''PASS'', None), tr1)))"

text \<open>
  \<open>doesPluginExist\<close>: something is at the file name and it is not a directory.
  \<open>doesPluginSourceExist\<close>: the source directory of the URL is a directory.
\<close>

definition doesPluginExist :: "env \<Rightarrow> cmd list \<Rightarrow> string \<Rightarrow> bool" where
  "doesPluginExist e tr file =
     (case stat_file e tr file of None \<Rightarrow> False | Some info \<Rightarrow> info \<noteq> IsDir)"

definition doesPluginSourceExist :: "env \<Rightarrow> cmd list \<Rightarrow> string \<Rightarrow> bool" where
  "doesPluginSourceExist e tr url =
     (case stat_source e tr url of None \<Rightarrow> False | Some info \<Rightarrow> info = IsDir)"

definition stripEmpty :: "string list \<Rightarrow> string list" where
  "stripEmpty ss = filter (\<lambda>str. str \<noteq> []) ss"

text \<open>
  \<open>getGitURLParts\<close> returns \<open>(gitUser, repoName, branch, err)\<close>; it reads \<open>parts[0]\<close>
  and \<open>parts[1]\<close> without a length check.
\<close>

definition getGitURLParts ::
  "golib \<Rightarrow> string \<Rightarrow> panic + (string \<times> string \<times> string \<times> error option)" where
  "getGitURLParts lib url =
     (let comps = Split url ''@''
      in case url_Parse lib (''http://'' @ hd comps) of
           Inl err \<Rightarrow> Inr ([], [], [], Some err)
         | Inr u \<Rightarrow>
             (let parts = stripEmpty (Split (Path u) ''/'')
              in if length parts < 2 then Inl IndexOutOfRange
                 else Inr (parts ! 0, parts ! 1,
                           (if length comps > 1 then comps ! 1 else Fragment u), None)))"

definition getPluginKey :: "string \<Rightarrow> string" where
  "getPluginKey file = hd (Split (filepath_Base file) ''.'')"

definition isGitReference :: "golib \<Rightarrow> string \<Rightarrow> bool" where
  "isGitReference lib handlerKey =
     (case url_Parse lib (''http://'' @ handlerKey) of Inl err \<Rightarrow> False | Inr u \<Rightarrow> True)"

definition removeBranchHash :: "string \<Rightarrow> string" where
  "removeBranchHash url = hd (Split (hd (Split url ''#'')) ''@'')"

text \<open>
  \<open>gitRepoFromURL\<close> cuts a URL of more than three segments to its first three.
\<close>

definition gitRepoFromURL :: "golib \<Rightarrow> string \<Rightarrow> string" where
  "gitRepoFromURL lib url =
     (let comps = Split url ''/''
      in if length comps > 3 then path_Join lib [comps ! 0, comps ! 1, comps ! 2] else url)"

definition isLocal :: "string \<Rightarrow> bool" where
  "isLocal path = prefix ''./'' path"

section \<open>The plugin record\<close>

text \<open>
  A loaded plugin of Go's \<open>plugin\<close> package, as far as the source uses it: a table of
  named symbols. A symbol is a function returning an error, a function returning
  \<open>interface{}\<close> (each with its identity, which the environment answers for when it is
  called), or a value of some other type (with the name of that type).
\<close>

datatype Symbol = FuncError nat | FuncInterface nat | OtherSymbol string

record plugin_Plugin =
  pluginpath :: string
  syms :: "(string \<times> Symbol) list"

text \<open>
  The struct \<open>Plugin\<close>. The field \<open>p\<close> of the source is \<open>plug\<close> here (\<open>None\<close> is the
  \<open>nil\<close> pointer) and the field \<open>alias\<close> is \<open>plugin_alias\<close>. The logger \<open>out\<close> is
  left out.
\<close>

record Plugin =
  plug :: "plugin_Plugin option"
  cm :: "CodeModule option"
  importKey :: string
  plugin_alias :: string
  gitURL :: string
  filename :: string
  branch :: string
  update :: bool

text \<open>
  \<open>newPlugin\<close> (the revision that calls \<open>ParseKey\<close>): a key that \<open>url.Parse\<close> accepts
  behind \<open>http://\<close> is a repository reference; otherwise a key with the extension
  \<open>.so\<close> is a plugin binary; anything else is not supported. The result is the panic,
  the error, or the record.
\<close>

definition newPlugin :: "golib \<Rightarrow> string \<Rightarrow> string \<Rightarrow> bool \<Rightarrow> panic + (error + Plugin)" where
  "newPlugin lib d key0 upd =
     (case ParseKey key0 of (key, al) \<Rightarrow>
        (let pl = \<lparr>plug = None, cm = None, importKey = key0, plugin_alias = al, gitURL = [],
                   filename = [], branch = [], update = upd\<rparr>
         in if isGitReference lib key then
              (case getGitURLParts lib key of
                 Inl pn \<Rightarrow> Inl pn
               | Inr (user, repoName, br, Some err) \<Rightarrow> Inr (Inl err)
               | Inr (user, repoName, br, None) \<Rightarrow>
                   (let al2 = (if al = [] then repoName else al)
                    in Inr (Inr (pl\<lparr>plugin_alias := al2, branch := br,
                                    gitURL := removeBranchHash key,
                                    filename := path_Join lib [d, al2 @ ''.so'']\<rparr>))))
            else if filepath_Ext key = ''.so'' then
              Inr (Inr (pl\<lparr>plugin_alias := (if al = [] then getPluginKey key else al),
                            filename := key\<rparr>))
            else Inr (Inl (Error (''plugin type not supported: '' @ key)))))"

text \<open>
  Modelled from the spec: \<open>parseKey\<close>, the function that \<open>newPlugin\<close> of plugin.go
  calls, is not among the sources. The spec describes it as splitting on the literal
  delimiter \<open>" as "\<close>, the second half (if present) being the explicit alias, the alias
  being derived from the final path segment otherwise: what \<open>ParseKey\<close> does.
\<close>

definition parseKey :: "string \<Rightarrow> string \<times> string" where
  "parseKey key = ParseKey key"

text \<open>
  \<open>newPlugin\<close> of plugin.go: a key with any extension is a plugin binary; otherwise a
  key that \<open>url.Parse\<close> accepts is a repository reference.
\<close>

definition newPlugin_plugin_go ::
  "golib \<Rightarrow> string \<Rightarrow> string \<Rightarrow> bool \<Rightarrow> panic + (error + Plugin)" where
  "newPlugin_plugin_go lib d key0 upd =
     (case parseKey key0 of (key, al) \<Rightarrow>
        (let pl = \<lparr>plug = None, cm = None, importKey = key0, plugin_alias = al, gitURL = [],
                   filename = [], branch = [], update = upd\<rparr>
         in if filepath_Ext key \<noteq> [] then
              Inr (Inr (pl\<lparr>plugin_alias := (if al = [] then getPluginKey key else al),
                            filename := key\<rparr>))
            else if isGitReference lib key then
              (case getGitURLParts lib key of
                 Inl pn \<Rightarrow> Inl pn
               | Inr (user, repoName, br, Some err) \<Rightarrow> Inr (Inl err)
               | Inr (user, repoName, br, None) \<Rightarrow>
                   (let al2 = (if al = [] then repoName else al)
                    in Inr (Inr (pl\<lparr>plugin_alias := al2, branch := br,
                                    gitURL := removeBranchHash key,
                                    filename := path_Join lib [d, al2 @ ''.so'']\<rparr>))))
            else Inr (Inl (Error (''plugin type not supported: '' @ key)))))"

subsection \<open>Acquisition\<close>

definition updateDependencies :: "env \<Rightarrow> Plugin \<Rightarrow> cmd list \<Rightarrow> error option \<times> cmd list" where
  "updateDependencies e pl tr = updatePluginDependencies e (gitURL pl) tr"

definition checkout :: "env \<Rightarrow> Plugin \<Rightarrow> cmd list \<Rightarrow> error option \<times> cmd list" where
  "checkout e pl tr =
     (case gitCheckout e (gitURL pl) (branch pl) tr of ((status, err), tr1) \<Rightarrow> (err, tr1))"

text \<open>
  \<open>setTargetBranch\<close> returns \<open>(shouldPull, err)\<close>. An error of the checkout whose
  message holds \<open>HEAD is now at\<close> sets the version: dependencies are updated and no pull
  is asked for. Any other error makes it fetch the tags; when the fetch fails its error
  is returned at once; otherwise the checkout is tried once more.
\<close>

definition setTargetBranch ::
  "env \<Rightarrow> Plugin \<Rightarrow> cmd list \<Rightarrow> (bool \<times> error option) \<times> cmd list" where
  "setTargetBranch e pl tr =
     (case checkout e pl tr of
        (None, tr1) \<Rightarrow> ((True, None), tr1)
      | (Some err1, tr1) \<Rightarrow>
          if \<not> Contains (Error_msg err1) ''HEAD is now at'' then
            (case gitFetchTags e (gitURL pl) tr1 of
               (Some err2, tr2) \<Rightarrow> ((True, Some err2), tr2)
             | (None, tr2) \<Rightarrow>
                 (case checkout e pl tr2 of
                    (None, tr3) \<Rightarrow> ((True, None), tr3)
                  | (Some err3, tr3) \<Rightarrow>
                      if \<not> Contains (Error_msg err3) ''HEAD is now at''
                      then ((True, Some err3), tr3)
                      else (case updateDependencies e pl tr3 of
                              (r, tr4) \<Rightarrow> ((False, r), tr4))))
          else (case updateDependencies e pl tr1 of (r, tr2) \<Rightarrow> ((False, r), tr2)))"

text \<open>
  The end of \<open>updatePlugin\<close>: the pull. A pull without error and without news returns;
  in every other case (also when the pull failed) the result is that of the dependency
  update.
\<close>

definition pullLatest :: "env \<Rightarrow> Plugin \<Rightarrow> cmd list \<Rightarrow> error option \<times> cmd list" where
  "pullLatest e pl tr =
     (case gitPull e (gitURL pl) tr of
        ((status, None), tr1) \<Rightarrow>
          if status \<noteq> [] then updateDependencies e pl tr1 else (None, tr1)
      | ((status, Some err), tr1) \<Rightarrow> updateDependencies e pl tr1)"

text \<open>
  \<open>updatePlugin\<close> with the branch override of the registry; it returns the error, the
  record (whose branch the override replaces) and the trace.
\<close>

definition updatePlugin ::
  "env \<Rightarrow> Plugin \<Rightarrow> string \<Rightarrow> cmd list \<Rightarrow> error option \<times> Plugin \<times> cmd list" where
  "updatePlugin e pl br tr =
     (if gitURL pl = [] then (None, pl, tr)
      else
        (let tr1 = (if \<not> doesPluginSourceExist e tr (gitURL pl)
                    then snd (goGet e (gitURL pl) tr) else tr);
             pl1 = (if br \<noteq> [] then pl\<lparr>branch := br\<rparr> else pl)
         in if branch pl1 \<noteq> [] then
              (case setTargetBranch e pl1 tr1 of
                 ((shouldPull, err), tr2) \<Rightarrow>
                   if \<not> shouldPull \<or> err \<noteq> None then (err, pl1, tr2)
                   else (case pullLatest e pl1 tr2 of (r, tr3) \<Rightarrow> (r, pl1, tr3)))
            else (case pullLatest e pl1 tr1 of (r, tr3) \<Rightarrow> (r, pl1, tr3))))"

subsection \<open>Build, test, load\<close>

definition build :: "env \<Rightarrow> Plugin \<Rightarrow> cmd list \<Rightarrow> error option \<times> cmd list" where
  "build e pl tr = goBuild e (gitURL pl) (filename pl) tr"

text \<open>
  \<open>test\<close> reads the record and assigns to none of its fields, so it returns the error
  and the trace only.
\<close>

definition test :: "env \<Rightarrow> Plugin \<Rightarrow> cmd list \<Rightarrow> error option \<times> cmd list" where
  "test e pl tr =
     (if doesPluginExist e tr (filename pl) \<and> \<not> update pl then (None, tr)
      else (case goTest e (gitURL pl) tr of
              ((pass, Some err), tr1) \<Rightarrow> (Some (Error (plugin_alias pl @ '' failed test'')), tr1)
            | ((pass, None), tr1) \<Rightarrow> (None, tr1)))"

text \<open>
  \<open>init\<close>: the three calls of the loader library are events whose error the
  environment gives; the code module is stored as the last call returns it.
\<close>

definition init :: "env \<Rightarrow> Plugin \<Rightarrow> cmd list \<Rightarrow> error option \<times> Plugin \<times> cmd list" where
  "init e pl tr =
     (case exec e RegSymbol tr of (r1, tr1) \<Rightarrow>
        (case run_err r1 of
           Some m \<Rightarrow> (Some (Error (''error registering symbol: '' @ m)), pl, tr1)
         | None \<Rightarrow>
             (case exec e (ReadObjs (filename pl)) tr1 of (r2, tr2) \<Rightarrow>
                (case run_err r2 of
                   Some m \<Rightarrow> (Some (Error m), pl, tr2)
                 | None \<Rightarrow>
                     (case exec e (LoadModule (filename pl)) tr2 of (r3, tr3) \<Rightarrow>
                        (case run_err r3 of
                           Some m \<Rightarrow>
                             (Some (Error (''error encountered while loading plugin: '' @ m)),
                              pl\<lparr>cm := None\<rparr>, tr3)
                         | None \<Rightarrow>
                             (None, pl\<lparr>cm := Some (loaded_module e tr2 (filename pl))\<rparr>,
                              tr3)))))))"

text \<open>
  \<open>closePlugin\<close>: \<open>Lookup\<close> on a \<open>nil\<close> plugin dereferences it. A missing \<open>Close\<close>
  symbol, or one that is not a function returning an error, is nothing to close.
\<close>

definition closePlugin ::
  "env \<Rightarrow> plugin_Plugin option \<Rightarrow> cmd list \<Rightarrow> panic + (error option \<times> cmd list)" where
  "closePlugin e h tr =
     (case h of
        None \<Rightarrow> Inl NilDereference
      | Some pp \<Rightarrow>
          (case map_of (syms pp) ''Close'' of
             None \<Rightarrow> Inr (None, tr)
           | Some (FuncError f) \<Rightarrow> Inr (call_error e tr f, tr @ [CallErrorFunc f])
           | Some other \<Rightarrow> Inr (None, tr)))"

section \<open>The registry\<close>

record Plugins =
  dir :: string
  Branch :: string
  ps :: "Plugin list"
  closed :: bool

text \<open>The constructor \<open>New(dir)\<close> of the package.\<close>

definition New :: "string \<Rightarrow> error + Plugins" where
  "New d = (if d = [] then Inl ErrInvalidDir
            else Inr \<lparr>dir = d, Branch = [], ps = [], closed = False\<rparr>)"

text \<open>
  Modelled from the spec: the type \<open>pluginslice\<close> and its methods \<open>append\<close> and \<open>get\<close>
  are used by the registry and are not among the sources. By the spec, registration
  appends the record, and fails with the duplicate-alias error, without mutating state,
  if the derived or explicit alias already exists in the registry; a lookup finds the
  record by its alias. The method returns the slice and the error; on failure the slice
  it returns is the one it was called on.
\<close>

definition pluginslice_get :: "Plugin list \<Rightarrow> string \<Rightarrow> Plugin option" where
  "pluginslice_get s key = find (\<lambda>x. plugin_alias x = key) s"

definition pluginslice_append :: "Plugin list \<Rightarrow> Plugin \<Rightarrow> Plugin list \<times> error option" where
  "pluginslice_append s x =
     (case pluginslice_get s (plugin_alias x) of
        Some y \<Rightarrow> (s, Some ErrPluginKeyExists)
      | None \<Rightarrow> (s @ [x], None))"

text \<open>
  The method \<open>New\<close> of the registry returns \<open>(key, err)\<close>; the model returns the
  registry as well. The slice that \<open>append\<close> returns is stored whether it failed or not.
\<close>

definition Plugins_New ::
  "golib \<Rightarrow> Plugins \<Rightarrow> string \<Rightarrow> bool \<Rightarrow> panic + (string \<times> error option \<times> Plugins)" where
  "Plugins_New lib P pluginKey upd =
     (case newPlugin lib (dir P) pluginKey upd of
        Inl pn \<Rightarrow> Inl pn
      | Inr (Inl err) \<Rightarrow> Inr ([], Some err, P)
      | Inr (Inr x) \<Rightarrow>
          (case pluginslice_append (ps P) x of
             (out, Some err) \<Rightarrow> Inr ([], Some err, P\<lparr>ps := out\<rparr>)
           | (out, None) \<Rightarrow> Inr (plugin_alias x, None, P\<lparr>ps := out\<rparr>)))"

text \<open>
  The loop of \<open>Retrieve\<close>, with the keys seen so far. It returns the error, the records
  (an update may replace a record's branch) and the trace.
\<close>

fun retrieve_loop ::
  "golib \<Rightarrow> env \<Rightarrow> string \<Rightarrow> Plugin list \<Rightarrow> string list \<Rightarrow> cmd list \<Rightarrow>
   error option \<times> Plugin list \<times> cmd list" where
  "retrieve_loop lib e br [] uniqueKeys tr = (None, [], tr)"
| "retrieve_loop lib e br (x # rest) uniqueKeys tr =
     (let gitRepo = gitRepoFromURL lib (gitURL x)
      in if gitRepo \<in> set uniqueKeys then
           (case retrieve_loop lib e br rest uniqueKeys tr of
              (r, rest1, tr1) \<Rightarrow> (r, x # rest1, tr1))
         else if isLocal (gitURL x) then
           (case retrieve_loop lib e br rest (gitRepo # uniqueKeys) tr of
              (r, rest1, tr1) \<Rightarrow> (r, x # rest1, tr1))
         else
           (case updatePlugin e x br tr of
              (Some err, x1, tr1) \<Rightarrow> (Some err, x1 # rest, tr1)
            | (None, x1, tr1) \<Rightarrow>
                (case retrieve_loop lib e br rest (gitRepo # uniqueKeys) tr1 of
                   (r, rest2, tr2) \<Rightarrow> (r, x1 # rest2, tr2))))"

definition Retrieve ::
  "golib \<Rightarrow> env \<Rightarrow> Plugins \<Rightarrow> cmd list \<Rightarrow> error option \<times> Plugins \<times> cmd list" where
  "Retrieve lib e P tr =
     (case retrieve_loop lib e (Branch P) (ps P) [] tr of
        (r, recs, tr1) \<Rightarrow> (r, P\<lparr>ps := recs\<rparr>, tr1))"

text \<open>The loop of \<open>Build\<close>: the first error ends it.\<close>

fun build_loop :: "env \<Rightarrow> Plugin list \<Rightarrow> cmd list \<Rightarrow> error option \<times> cmd list" where
  "build_loop e [] tr = (None, tr)"
| "build_loop e (x # rest) tr =
     (case build e x tr of
        (Some err, tr1) \<Rightarrow> (Some err, tr1)
      | (None, tr1) \<Rightarrow> build_loop e rest tr1)"

definition Build :: "env \<Rightarrow> Plugins \<Rightarrow> cmd list \<Rightarrow> error option \<times> cmd list" where
  "Build e P tr = build_loop e (ps P) tr"



fun test_loop :: "env \<Rightarrow> Plugin list \<Rightarrow> cmd list \<Rightarrow> error option \<times> cmd list" where
  "test_loop e [] tr = (None, tr)"
| "test_loop e (x # rest) tr =
     (case test e x tr of
        (Some err, tr1) \<Rightarrow> (Some err, tr1)
      | (None, tr1) \<Rightarrow> test_loop e rest tr1)"

definition Test :: "env \<Rightarrow> Plugins \<Rightarrow> cmd list \<Rightarrow> error option \<times> cmd list" where
  "Test e P tr = test_loop e (ps P) tr"

fun test_tasks :: "env \<Rightarrow> Plugin list \<Rightarrow> error list \<Rightarrow> cmd list \<Rightarrow> error list \<times> cmd list" where
  "test_tasks e [] errs tr = (errs, tr)"
| "test_tasks e (x # rest) errs tr =
     (case test e x tr of (r, tr1) \<Rightarrow> test_tasks e rest (Push errs r) tr1)"

definition TestAsync ::
  "env \<Rightarrow> (Plugin list \<Rightarrow> Plugin list) \<Rightarrow> Plugins \<Rightarrow> cmd list \<Rightarrow>
   (error option \<times> cmd list) option" where
  "TestAsync e q P tr =
     (if mset (q (ps P)) = mset (ps P)
      then (case test_tasks e (q (ps P)) [] tr of (errs, tr1) \<Rightarrow> Some (Err errs, tr1))
      else None)"

fun init_loop :: "env \<Rightarrow> Plugin list \<Rightarrow> cmd list \<Rightarrow> error option \<times> Plugin list \<times> cmd list" where
  "init_loop e [] tr = (None, [], tr)"
| "init_loop e (x # rest) tr =
     (case init e x tr of
        (Some err, x1, tr1) \<Rightarrow> (Some err, x1 # rest, tr1)
      | (None, x1, tr1) \<Rightarrow>
          (case init_loop e rest tr1 of (r, rest2, tr2) \<Rightarrow> (r, x1 # rest2, tr2)))"

definition Initialize :: "env \<Rightarrow> Plugins \<Rightarrow> cmd list \<Rightarrow> error option \<times> Plugins \<times> cmd list" where
  "Initialize e P tr =
     (case init_loop e (ps P) tr of (r, recs, tr1) \<Rightarrow> (r, P\<lparr>ps := recs\<rparr>, tr1))"

text \<open>\<open>Get\<close> returns the field \<open>p\<close> of the record found, which may be \<open>nil\<close>.\<close>

definition Get :: "Plugins \<Rightarrow> string \<Rightarrow> plugin_Plugin option \<times> error option" where
  "Get P key =
     (case pluginslice_get (ps P) key of
        None \<Rightarrow> (None, Some (Error (''Cannot find plugin '' @ key @ '': '' @
                                    Error_msg ErrPluginNotLoaded)))
      | Some x \<Rightarrow> (plug x, None))"

text \<open>
  The loop of \<open>Close\<close>: every record's plugin is closed, the errors are collected and
  the loop goes on after an error.
\<close>

fun close_loop ::
  "env \<Rightarrow> Plugin list \<Rightarrow> error list \<Rightarrow> cmd list \<Rightarrow> panic + (error list \<times> cmd list)" where
  "close_loop e [] errs tr = Inr (errs, tr)"
| "close_loop e (x # rest) errs tr =
     (case closePlugin e (plug x) tr of
        Inl pn \<Rightarrow> Inl pn
      | Inr (Some err, tr1) \<Rightarrow>
          close_loop e rest
            (Push errs (Some (Error (''error closing '' @ plugin_alias x @ '' ('' @ filename x @
                                     ''): '' @ Error_msg err)))) tr1
      | Inr (None, tr1) \<Rightarrow> close_loop e rest errs tr1)"

definition Close ::
  "env \<Rightarrow> Plugins \<Rightarrow> cmd list \<Rightarrow> panic + (error option \<times> Plugins \<times> cmd list)" where
  "Close e P tr =
     (if closed P then Inr (Some ErrIsClosed, P, tr)
      else (case close_loop e (ps P) [] tr of
              Inl pn \<Rightarrow> Inl pn
            | Inr (errs, tr1) \<Rightarrow> Inr (Err errs, P\<lparr>closed := True\<rparr>, tr1)))"

section \<open>Binding a backend\<close>

text \<open>
  The part of \<open>reflect\<close> that \<open>Backend\<close> uses. \<open>reflect.ValueOf\<close> of the \<open>nil\<close>
  interface is the zero Value. \<open>Elem\<close> panics unless the value is a pointer (a value
  got from \<open>ValueOf\<close> is never of interface kind); of a \<open>nil\<close> pointer it is the zero
  Value, otherwise the variable pointed to. Only such a variable can be set. \<open>Type\<close>
  panics on the zero Value. \<open>Implements\<close> panics unless its argument is an interface
  type.
\<close>

datatype elem = ZeroElem | Var gtype nat

definition reflect_Elem :: "gvalue \<Rightarrow> panic + elem" where
  "reflect_Elem v =
     (case v of
        GNil \<Rightarrow> Inl ReflectPanic
      | GPtr t None \<Rightarrow> Inr ZeroElem
      | GPtr t (Some a) \<Rightarrow> Inr (Var t a)
      | GVal n x \<Rightarrow> Inl ReflectPanic)"

definition CanSet :: "elem \<Rightarrow> bool" where
  "CanSet el = (case el of ZeroElem \<Rightarrow> False | Var t a \<Rightarrow> True)"

definition elem_Type :: "elem \<Rightarrow> panic + gtype" where
  "elem_Type el = (case el of ZeroElem \<Rightarrow> Inl ReflectPanic | Var t a \<Rightarrow> Inr t)"

definition value_Type :: "gvalue \<Rightarrow> panic + gtype" where
  "value_Type v =
     (case v of
        GNil \<Rightarrow> Inl ReflectPanic
      | GPtr t a \<Rightarrow> Inr (PtrTo t)
      | GVal n x \<Rightarrow> Inr (Concrete n))"

definition Implements :: "golib \<Rightarrow> gtype \<Rightarrow> gtype \<Rightarrow> panic + bool" where
  "Implements lib t u =
     (case u of Iface n \<Rightarrow> Inr (type_implements lib t u) | other \<Rightarrow> Inl ReflectPanic)"

primrec type_name :: "gtype \<Rightarrow> string" where
  "type_name (Concrete n) = n"
| "type_name (Iface n) = n"
| "type_name (PtrTo t) = CHR ''*'' # type_name t"

text \<open>
  The end of both \<open>Backend\<close> methods, from the type switch on: the destination is set
  when the types are equal or the backend's type implements the destination's type. The
  memory is a function from addresses to values.
\<close>

definition setBackend ::
  "golib \<Rightarrow> elem \<Rightarrow> gvalue \<Rightarrow> (nat \<Rightarrow> gvalue) \<Rightarrow> panic + (error option \<times> (nat \<Rightarrow> gvalue))" where
  "setBackend lib el beVal h =
     (case elem_Type el of
        Inl pn \<Rightarrow> Inl pn
      | Inr et \<Rightarrow>
          (case value_Type beVal of
             Inl pn \<Rightarrow> Inl pn
           | Inr bt \<Rightarrow>
               (let stored = (case el of ZeroElem \<Rightarrow> h | Var t a \<Rightarrow> h(a := beVal))
                in if et = bt then Inr (None, stored)
                   else (case Implements lib bt et of
                           Inl pn \<Rightarrow> Inl pn
                         | Inr True \<Rightarrow> Inr (None, stored)
                         | Inr False \<Rightarrow>
                             Inr (Some (Error (''invalid type, expected '' @ type_name et @
                                               '' and received '' @ type_name bt)), h)))))"

text \<open>
  \<open>Backend\<close> of the registry of records. It returns the error, the memory and the
  trace.
\<close>

definition Backend ::
  "golib \<Rightarrow> env \<Rightarrow> Plugins \<Rightarrow> string \<Rightarrow> gvalue \<Rightarrow> (nat \<Rightarrow> gvalue) \<Rightarrow> cmd list \<Rightarrow>
   panic + (error option \<times> (nat \<Rightarrow> gvalue) \<times> cmd list)" where
  "Backend lib e P key backend h tr =
     (case Get P key of
        (hp, Some err) \<Rightarrow> Inr (Some err, h, tr)
      | (None, None) \<Rightarrow> Inl NilDereference
      | (Some pp, None) \<Rightarrow>
          (case map_of (syms pp) ''Backend'' of
             None \<Rightarrow>
               Inr (Some (Error (''plugin: symbol Backend not found in plugin '' @
                                 pluginpath pp)), h, tr)
           | Some (FuncInterface f) \<Rightarrow>
               (case reflect_Elem backend of
                  Inl pn \<Rightarrow> Inl pn
                | Inr el \<Rightarrow>
                    if \<not> CanSet el then Inr (Some ErrNotAddressable, h, tr)
                    else (case setBackend lib el (call_interface e tr f) h of
                            Inl pn \<Rightarrow> Inl pn
                          | Inr (r, h1) \<Rightarrow> Inr (r, h1, tr @ [CallInterfaceFunc f])))
           | Some (FuncError f) \<Rightarrow>
               Inr (Some (Error (''invalid symbol, expected func() interface{} and received '' @
                                 ''func() error'')), h, tr)
           | Some (OtherSymbol n) \<Rightarrow>
               Inr (Some (Error (''invalid symbol, expected func() interface{} and received '' @
                                 n)), h, tr)))"

subsection \<open>The registry of plugin.go\<close>

text \<open>
  In plugin.go the registry is a map from the key to a value of the interface
  \<open>Plugin\<close>: the \<open>nil\<close> interface, or an implementation (with its identity).
\<close>

datatype PluginValue = NilPlugin | PluginImpl nat

record Plugins_pm =
  pm :: "string \<rightharpoonup> PluginValue"
  pm_closed :: bool

definition Register :: "Plugins_pm \<Rightarrow> string \<Rightarrow> PluginValue \<Rightarrow> error option \<times> Plugins_pm" where
  "Register P key x =
     (if pm_closed P then (Some ErrIsClosed, P)
      else (case pm P key of
              Some y \<Rightarrow>
                (Some (Error (''plugin with the key of <'' @ key @ ''> has already been loaded'')), P)
            | None \<Rightarrow> (None, P\<lparr>pm := (pm P)(key \<mapsto> x)\<rparr>)))"

definition Backend_pm ::
  "golib \<Rightarrow> env \<Rightarrow> Plugins_pm \<Rightarrow> string \<Rightarrow> gvalue \<Rightarrow> (nat \<Rightarrow> gvalue) \<Rightarrow> cmd list \<Rightarrow>
   panic + (error option \<times> (nat \<Rightarrow> gvalue) \<times> cmd list)" where
  "Backend_pm lib e P key backend h tr =
     (if pm_closed P then Inr (Some ErrIsClosed, h, tr)
      else (case pm P key of
              None \<Rightarrow>
                Inr (Some (Error (''plugin with key of <'' @ key @ ''> has not been registered'')),
                     h, tr)
            | Some x \<Rightarrow>
                (case reflect_Elem backend of
                   Inl pn \<Rightarrow> Inl pn
                 | Inr el \<Rightarrow>
                     if \<not> CanSet el then Inr (Some ErrNotAddressable, h, tr)
                     else (case x of
                             NilPlugin \<Rightarrow> Inl NilDereference
                           | PluginImpl f \<Rightarrow>
                               (case setBackend lib el (call_interface e tr f) h of
                                  Inl pn \<Rightarrow> Inl pn
                                | Inr (r, h1) \<Rightarrow> Inr (r, h1, tr @ [CallInterfaceFunc f]))))))"

section \<open>Example environments\<close>

text \<open>
  Concrete instances for the examples below. A process that ends cleanly and writes
  nothing; a process that ends with an error; an environment given by what its
  processes do and by what the backend functions return, in which every file exists,
  every source directory exists and every \<open>Close\<close> function succeeds.
\<close>

definition silent :: proc where
  "silent = \<lparr>run_err = None, stdout = [], stderr = []\<rparr>"

definition failed :: "string \<Rightarrow> proc" where
  "failed text = \<lparr>run_err = Some ''exit status 1'', stdout = [], stderr = text\<rparr>"

definition env_of :: "(cmd list \<Rightarrow> cmd \<Rightarrow> proc) \<Rightarrow> (nat \<Rightarrow> gvalue) \<Rightarrow> env" where
  "env_of r b =
     \<lparr>run = r, stat_file = (\<lambda>tr f. Some IsFile), stat_source = (\<lambda>tr u. Some IsDir),
      loaded_module = (\<lambda>tr f. []), call_error = (\<lambda>tr n. None),
      call_interface = (\<lambda>tr n. b n)\<rparr>"

text \<open>
  A stand-in for the library on plain keys (no escapes, no query, no user information,
  nothing to clean in a path): the path of a URL begins at the first slash after the
  scheme and ends before the first hash, the fragment is what follows that hash; a join
  puts slashes between the elements; no type implements an interface.
\<close>

definition url_Parse_plain :: "string \<Rightarrow> error + URL" where
  "url_Parse_plain s =
     (let rest = drop 7 s;
          body = takeWhile (\<lambda>c. c \<noteq> CHR ''#'') rest
      in Inr \<lparr>Path = dropWhile (\<lambda>c. c \<noteq> CHR ''/'') body,
              Fragment = drop (Suc (length body)) rest\<rparr>)"

fun path_Join_plain :: "string list \<Rightarrow> string" where
  "path_Join_plain [] = []"
| "path_Join_plain [x] = x"
| "path_Join_plain (x # y # ys) = x @ ''/'' @ path_Join_plain (y # ys)"

definition lib_plain :: golib where
  "lib_plain = \<lparr>url_Parse = url_Parse_plain, path_Join = path_Join_plain,
                type_implements = (\<lambda>t u. False)\<rparr>"

text \<open>
  A record as registration makes it for a repository reference, with an opened plugin
  that has the given symbols.
\<close>

definition example_plugin :: "string \<Rightarrow> string \<Rightarrow> string \<Rightarrow> (string \<times> Symbol) list \<Rightarrow> Plugin" where
  "example_plugin a url br tab =
     \<lparr>plug = Some \<lparr>pluginpath = ''plugins/'' @ a @ ''.so'', syms = tab\<rparr>, cm = None,
      importKey = url, plugin_alias = a, gitURL = url,
      filename = ''plugins/'' @ a @ ''.so'', branch = br, update = False\<rparr>"

definition env_quiet :: env where
  "env_quiet = env_of (\<lambda>tr c. silent) (\<lambda>n. GNil)"

text \<open>An environment in which every process fails.\<close>

definition env_failing :: env where
  "env_failing = env_of (\<lambda>tr c. failed ''FAIL'') (\<lambda>n. GNil)"

definition example_registry :: Plugins where
  "example_registry =
     \<lparr>dir = ''plugins'', Branch = [],
      ps = [example_plugin ''repo'' ''github.com/user/repo'' [] [(''Close'', FuncError 7)]],
      closed = False\<rparr>"

definition empty_registry :: Plugins where
  "empty_registry = \<lparr>dir = ''plugins'', Branch = [], ps = [], closed = False\<rparr>"



text \<open>
  A registry of three records and an environment in which the build of the second one
  fails.
\<close>

definition three_registry :: Plugins where
  "three_registry =
     \<lparr>dir = ''plugins'', Branch = [],
      ps = [example_plugin ''one'' ''github.com/user/one'' [] [],
            example_plugin ''two'' ''github.com/user/two'' [] [],
            example_plugin ''three'' ''github.com/user/three'' [] []],
      closed = False\<rparr>"








text \<open>
  A record pinned to a version, and three environments: one in which the checkout
  reports the detached head; one in which the checkout fails for another reason and the
  fetch of the tags fails too; one in which the checkout fails for another reason and
  the fetch succeeds.
\<close>

definition pinned_plugin :: Plugin where
  "pinned_plugin = example_plugin ''repo'' ''github.com/user/repo'' ''v1.2.0'' []"

definition run_detached :: "cmd list \<Rightarrow> cmd \<Rightarrow> proc" where
  "run_detached tr c =
     (case c of
        GitCheckout u b \<Rightarrow>
          \<lparr>run_err = None, stdout = [], stderr = ''HEAD is now at 1a2b3c4 release''\<rparr>
      | other \<Rightarrow> silent)"

definition run_no_remote :: "cmd list \<Rightarrow> cmd \<Rightarrow> proc" where
  "run_no_remote tr c =
     (case c of
        GitCheckout u b \<Rightarrow> failed ''error: pathspec did not match''
      | GitFetchTags u \<Rightarrow> failed ''fatal: unable to access remote''
      | other \<Rightarrow> silent)"

definition run_unknown_ref :: "cmd list \<Rightarrow> cmd \<Rightarrow> proc" where
  "run_unknown_ref tr c =
     (case c of
        GitCheckout u b \<Rightarrow> failed ''error: pathspec did not match''
      | other \<Rightarrow> silent)"

definition env_detached :: env where
  "env_detached = env_of run_detached (\<lambda>n. GNil)"

definition env_no_remote :: env where
  "env_no_remote = env_of run_no_remote (\<lambda>n. GNil)"

definition env_unknown_ref :: env where
  "env_unknown_ref = env_of run_unknown_ref (\<lambda>n. GNil)"

text \<open>
  A registry whose record has an opened plugin with a \<open>Backend\<close> function, and a
  registry of plugin.go with one implementation; in \<open>env_quiet\<close> every backend
  function returns \<open>nil\<close>.
\<close>

definition backend_registry :: Plugins where
  "backend_registry =
     \<lparr>dir = ''plugins'', Branch = [],
      ps = [example_plugin ''db'' ''github.com/user/db'' [] [(''Backend'', FuncInterface 3)]],
      closed = False\<rparr>"

definition backend_registry_pm :: Plugins_pm where
  "backend_registry_pm = \<lparr>pm = [''db'' \<mapsto> PluginImpl 3], pm_closed = False\<rparr>"

text \<open>
  Two more environments for a pinned record: in both the first checkout fails for a
  reason that is not the detached head and the fetch of the tags succeeds; after the
  fetch the checkout reports the detached head in the first, and succeeds in the second.
\<close>

definition run_tag_after_fetch :: "cmd list \<Rightarrow> cmd \<Rightarrow> proc" where
  "run_tag_after_fetch tr c =
     (case c of
        GitCheckout u b \<Rightarrow>
          if GitFetchTags u \<in> set tr
          then \<lparr>run_err = None, stdout = [], stderr = ''HEAD is now at 1a2b3c4 release''\<rparr>
          else failed ''error: pathspec did not match''
      | other \<Rightarrow> silent)"

definition run_branch_after_fetch :: "cmd list \<Rightarrow> cmd \<Rightarrow> proc" where
  "run_branch_after_fetch tr c =
     (case c of
        GitCheckout u b \<Rightarrow>
          if GitFetchTags u \<in> set tr then silent
          else failed ''error: pathspec did not match''
      | other \<Rightarrow> silent)"

definition env_tag_after_fetch :: env where
  "env_tag_after_fetch = env_of run_tag_after_fetch (\<lambda>n. GNil)"

definition env_branch_after_fetch :: env where
  "env_branch_after_fetch = env_of run_branch_after_fetch (\<lambda>n. GNil)"

text \<open>
  The method segment of a handler key (the text between its first and its second dot,
  or the end) and the argument text of a method segment (the text between its first
  and its second opening parenthesis, or the end).
\<close>

definition method_segment :: "string \<Rightarrow> string" where
  "method_segment s =
     takeWhile (\<lambda>a. a \<noteq> CHR ''.'') (tl (dropWhile (\<lambda>a. a \<noteq> CHR ''.'') s))"

definition args_text :: "string \<Rightarrow> string" where
  "args_text h = takeWhile (\<lambda>a. a \<noteq> CHR ''('') (tl (dropWhile (\<lambda>a. a \<noteq> CHR ''('') h))"

text \<open>A registry of plugin.go with two keys.\<close>

definition two_registry_pm :: Plugins_pm where
  "two_registry_pm = \<lparr>pm = [''db'' \<mapsto> PluginImpl 3, ''cache'' \<mapsto> PluginImpl 4],
                       pm_closed = False\<rparr>"

definition empty_registry_pm :: Plugins_pm where
  "empty_registry_pm = \<lparr>pm = Map.empty, pm_closed = False\<rparr>"

definition empty_memory :: "nat \<Rightarrow> gvalue" where
  "empty_memory a = GNil"

section \<open>Facts about splitting\<close>

lemma Split_sep_eval:
  "sep \<noteq> [] \<Longrightarrow> Split_sep sep s =
     (case cut sep s of None \<Rightarrow> [s] | Some (a, b) \<Rightarrow> a # Split_sep sep b)"
  by (subst Split_sep.simps) simp

lemma cut_None_char: "c \<notin> set s \<Longrightarrow> cut [c] s = None"
  by (induction s) auto

lemma cut_char: "c \<notin> set s \<Longrightarrow> cut [c] (s @ c # r) = Some (s, r)"
  by (induction s) auto

lemma cut_None_iff: "sep \<noteq> [] \<Longrightarrow> cut sep s = None \<longleftrightarrow> \<not> Contains s sep"
  by (induction s) (auto split: option.splits)

lemma prefix_short: "prefix sep (xs @ ys) \<Longrightarrow> length sep \<le> length xs \<Longrightarrow> prefix sep xs"
  by (metis prefix_length_prefix prefixI)

text \<open>
  When the separator does not occur in \<open>s\<close> followed by all but the last character of
  the separator, the first occurrence in \<open>s @ sep @ r\<close> is the one written there.
\<close>

lemma cut_first:
  "sep \<noteq> [] \<Longrightarrow> \<not> Contains (s @ butlast sep) sep \<Longrightarrow> cut sep (s @ sep @ r) = Some (s, r)"
proof (induction s)
  case Nil
  then show ?case by (cases sep) auto
next
  case (Cons c cs)
  have np: "\<not> prefix sep (c # cs @ sep @ r)"
  proof
    assume p: "prefix sep (c # cs @ sep @ r)"
    have "c # cs @ sep @ r = ((c # cs) @ butlast sep) @ (last sep # r)"
      using Cons.prems(1) by simp
    with p have "prefix sep (((c # cs) @ butlast sep) @ (last sep # r))" by simp
    moreover have "length sep \<le> length ((c # cs) @ butlast sep)" by simp
    ultimately have "prefix sep ((c # cs) @ butlast sep)" by (rule prefix_short)
    with Cons.prems(2) show False by simp
  qed
  from Cons.prems(2) have "\<not> Contains (cs @ butlast sep) sep" by simp
  with Cons.IH Cons.prems(1) have "cut sep (cs @ sep @ r) = Some (cs, r)" by simp
  with np show ?case by simp
qed

lemma Split_no_char: "c \<notin> set s \<Longrightarrow> Split s [c] = [s]"
  by (simp add: Split_def Split_sep_eval cut_None_char)

lemma Split_at_char: "c \<notin> set s \<Longrightarrow> Split (s @ c # r) [c] = s # Split r [c]"
  by (simp add: Split_def Split_sep_eval [of "[c]" "s @ c # r"] cut_char)

lemma Split_absent: "sep \<noteq> [] \<Longrightarrow> \<not> Contains s sep \<Longrightarrow> Split s sep = [s]"
proof -
  assume ne: "sep \<noteq> []" and "\<not> Contains s sep"
  then have "cut sep s = None" by (simp add: cut_None_iff)
  with ne show ?thesis by (simp add: Split_def Split_sep_eval)
qed

lemma Split_first:
  "sep \<noteq> [] \<Longrightarrow> \<not> Contains (s @ butlast sep) sep \<Longrightarrow>
   Split (s @ sep @ r) sep = s # Split r sep"
  by (simp add: Split_def Split_sep_eval [of sep "s @ sep @ r"] cut_first)

section \<open>The handler-key parser\<close>

text \<open>
  Claim C8. The handler key \<open>alias.Method(1,2,3)\<close> parses to the alias \<open>alias\<close>, the
  method \<open>Method\<close> and the arguments \<open>1\<close>, \<open>2\<close>, \<open>3\<close> in this order, with no error.
  The key \<open>alias.Method(1,2,3\<close>, whose parenthesis is not closed, fails with the
  expected-ending-parenthesis error.
\<close>

theorem getHandlerParts_example:
  "getHandlerParts ''alias.Method(1,2,3)'' =
     Inr (''alias'', ''Method'', [''1'', ''2'', ''3''], None) \<and>
   getHandlerParts ''alias.Method(1,2,3'' =
     Inr (''alias'', ''Method'', [], Some ErrExpectedEndParen)"
  by (simp add: getHandlerParts_def Split_def Split_sep_eval Let_def)

lemma cut_char_eq:
  "cut [c] x = (if c \<in> set x
                then Some (takeWhile (\<lambda>a. a \<noteq> c) x, tl (dropWhile (\<lambda>a. a \<noteq> c) x))
                else None)"
  by (induction x) auto

lemma takeWhile_absent: "c \<notin> set x \<Longrightarrow> takeWhile (\<lambda>a. a \<noteq> c) x = x"
  by (induction x) auto

lemma dropWhile_at: "c \<notin> set k \<Longrightarrow> dropWhile (\<lambda>a. a \<noteq> c) (k @ c # r) = c # r"
  by (induction k) auto

lemma takeWhile_past:
  "c \<notin> set m \<Longrightarrow> c \<noteq> d \<Longrightarrow>
   takeWhile (\<lambda>a. a \<noteq> c) (m @ d # t) = m @ d # takeWhile (\<lambda>a. a \<noteq> c) t"
  by (induction m) auto

lemma Split_char:
  "Split x [c] = takeWhile (\<lambda>a. a \<noteq> c) x #
     (if c \<in> set x then Split (tl (dropWhile (\<lambda>a. a \<noteq> c) x)) [c] else [])"
proof (cases "c \<in> set x")
  case True
  then show ?thesis
    by (simp add: Split_def Split_sep_eval [of "[c]" x] cut_char_eq)
next
  case False
  then have tw: "takeWhile (\<lambda>a. a \<noteq> c) x = x" by (rule takeWhile_absent)
  from False have "Split x [c] = [x]"
    by (simp add: Split_def Split_sep_eval [of "[c]" x] cut_char_eq)
  with False show ?thesis by (simp add: takeWhile_absent [OF False])
qed

lemma Split_char_Cons: "\<exists>y ys. Split x [c] = y # ys"
  using Split_char [of x c] by blast

lemma Split_char_second:
  assumes "c \<in> set x"
  shows "Split x [c] ! 1 = takeWhile (\<lambda>a. a \<noteq> c) (tl (dropWhile (\<lambda>a. a \<noteq> c) x))"
proof -
  let ?r = "tl (dropWhile (\<lambda>a. a \<noteq> c) x)"
  have "Split x [c] = takeWhile (\<lambda>a. a \<noteq> c) x # Split ?r [c]"
    using assms Split_char [of x c] by simp
  moreover obtain ys where "Split ?r [c] = takeWhile (\<lambda>a. a \<noteq> c) ?r # ys"
    using Split_char [of ?r c] by blast
  ultimately show ?thesis by simp
qed

lemma Split_char_short: "length (Split x [c]) < 2 \<longleftrightarrow> c \<notin> set x"
proof (cases "c \<in> set x")
  case True
  let ?r = "tl (dropWhile (\<lambda>a. a \<noteq> c) x)"
  have "Split x [c] = takeWhile (\<lambda>a. a \<noteq> c) x # Split ?r [c]"
    using True Split_char [of x c] by simp
  moreover obtain y ys where "Split ?r [c] = y # ys"
    using Split_char_Cons [of ?r c] by blast
  ultimately show ?thesis using True by simp
next
  case False
  then show ?thesis using Split_char [of x c] by simp
qed

lemma Split_char_one: "length (Split x [c]) = 1 \<longleftrightarrow> c \<notin> set x"
proof -
  obtain y ys where "Split x [c] = y # ys" using Split_char_Cons [of x c] by blast
  then have "length (Split x [c]) = 1 \<longleftrightarrow> length (Split x [c]) < 2" by auto
  then show ?thesis using Split_char_short [of x c] by simp
qed

lemma panics_iff:
  "getHandlerParts s = Inl IndexOutOfRange \<longleftrightarrow>
     CHR ''.'' \<notin> set s \<or>
     (CHR ''('' \<in> set (method_segment s) \<and> args_text (method_segment s) = [])"
proof (cases "CHR ''.'' \<in> set s")
  case False
  then show ?thesis using Split_char_short [of s "CHR ''.''"] by (simp add: getHandlerParts_def)
next
  case True
  then have l: "\<not> length (Split s ''.'') < 2" using Split_char_short [of s "CHR ''.''"] by simp
  have h: "Split s ''.'' ! 1 = method_segment s"
    using True Split_char_second [of "CHR ''.''" s] by (simp add: method_segment_def)
  show ?thesis
  proof (cases "CHR ''('' \<in> set (method_segment s)")
    case False
    then have "length (Split (method_segment s) ''('') = 1"
      using Split_char_one [of "method_segment s" "CHR ''(''"] by simp
    with True False l h show ?thesis by (simp add: getHandlerParts_def Let_def)
  next
    case p: True
    then have "length (Split (method_segment s) ''('') \<noteq> 1"
      using Split_char_one [of "method_segment s" "CHR ''(''"] by simp
    moreover have "Split (method_segment s) ''('' ! 1 = args_text (method_segment s)"
      using p Split_char_second [of "CHR ''(''" "method_segment s"] by (simp add: args_text_def)
    ultimately show ?thesis using True p l h
      by (simp add: getHandlerParts_def Let_def ErrExpectedEndParen_def)
  qed
qed

lemma shape_segment:
  assumes "CHR ''.'' \<notin> set k" "CHR ''.'' \<notin> set m" "CHR ''('' \<notin> set m"
    and "t = [] \<or> hd t = CHR ''('' \<or> hd t = CHR ''.''"
  shows "CHR ''('' \<in> set (method_segment (k @ ''.'' @ m @ ''('' @ t)) \<and>
         args_text (method_segment (k @ ''.'' @ m @ ''('' @ t)) = []"
proof -
  have d: "dropWhile (\<lambda>a. a \<noteq> CHR ''.'') (k @ ''.'' @ m @ ''('' @ t) = ''.'' @ m @ ''('' @ t"
    using assms(1) by (simp add: dropWhile_at)
  have ms: "method_segment (k @ ''.'' @ m @ ''('' @ t) =
        m @ ''('' @ takeWhile (\<lambda>a. a \<noteq> CHR ''.'') t"
    using assms(2) d by (simp add: method_segment_def takeWhile_past)
  have "dropWhile (\<lambda>a. a \<noteq> CHR ''('') (m @ ''('' @ takeWhile (\<lambda>a. a \<noteq> CHR ''.'') t) =
        ''('' @ takeWhile (\<lambda>a. a \<noteq> CHR ''.'') t"
    using assms(3) by (simp add: dropWhile_at)
  then have "args_text (m @ ''('' @ takeWhile (\<lambda>a. a \<noteq> CHR ''.'') t) =
      takeWhile (\<lambda>a. a \<noteq> CHR ''('') (takeWhile (\<lambda>a. a \<noteq> CHR ''.'') t)"
    by (simp add: args_text_def)
  also have "\<dots> = []" using assms(4) by (cases t) auto
  finally show ?thesis using ms by simp
qed

lemma segment_shape:
  assumes "CHR ''.'' \<in> set s" and "CHR ''('' \<in> set (method_segment s)"
    and "args_text (method_segment s) = []"
  shows "\<exists>k m t. s = k @ ''.'' @ m @ ''('' @ t \<and> CHR ''.'' \<notin> set k \<and> CHR ''.'' \<notin> set m \<and>
           CHR ''('' \<notin> set m \<and> (t = [] \<or> hd t = CHR ''('' \<or> hd t = CHR ''.'')"
proof -
  let ?nd = "\<lambda>a. a \<noteq> CHR ''.''" and ?np = "\<lambda>a. a \<noteq> CHR ''(''"
  let ?k = "takeWhile ?nd s"
  let ?r = "tl (dropWhile ?nd s)"
  let ?h = "takeWhile ?nd ?r"
  let ?m = "takeWhile ?np ?h"
  let ?u = "tl (dropWhile ?np ?h)"
  from assms(1) have "dropWhile ?nd s \<noteq> []" by simp
  moreover then have "hd (dropWhile ?nd s) = CHR ''.''" using hd_dropWhile [of ?nd s] by simp
  ultimately have s: "s = ?k @ ''.'' @ ?r"
    by (metis append_Cons append_Nil hd_Cons_tl takeWhile_dropWhile_id)
  have hm: "?h = method_segment s" by (simp add: method_segment_def)
  from assms(2) hm have "dropWhile ?np ?h \<noteq> []" by simp
  moreover then have "hd (dropWhile ?np ?h) = CHR ''(''" using hd_dropWhile [of ?np ?h] by simp
  ultimately have h: "?h = ?m @ ''('' @ ?u"
    by (metis append_Cons append_Nil hd_Cons_tl takeWhile_dropWhile_id)
  have r: "?r = ?h @ dropWhile ?nd ?r" by simp
  have u: "takeWhile ?np ?u = []" using assms(3) hm by (simp add: args_text_def)
  let ?t = "?u @ dropWhile ?nd ?r"
  have t: "?t = [] \<or> hd ?t = CHR ''('' \<or> hd ?t = CHR ''.''"
  proof (cases ?u)
    case Nil
    then show ?thesis using hd_dropWhile [of ?nd ?r] by auto
  next
    case (Cons a as)
    with u have "a = CHR ''(''" by (auto split: if_splits)
    with Cons show ?thesis by simp
  qed
  have "s = ?k @ ''.'' @ ?m @ ''('' @ ?t"
    using s r h by (metis append.assoc)
  moreover have "CHR ''.'' \<notin> set ?k" by (metis (mono_tags, lifting) set_takeWhileD)
  moreover have "CHR ''.'' \<notin> set ?m"
    by (metis (mono_tags, lifting) set_takeWhileD)
  moreover have "CHR ''('' \<notin> set ?m" by (metis (mono_tags, lifting) set_takeWhileD)
  ultimately show ?thesis using t by blast
qed


text \<open>
  The claim C10 as it is written (a panic for every input whose text after the opening
  parenthesis is empty) fails for an input whose parenthesis is not in its second
  segment: only the first two segments are read, and \<open>a.b.c(\<close> parses to the alias
  \<open>a\<close> and the method \<open>b\<close> without error.
\<close>

theorem dotted_key_counterexample:
  "getHandlerParts ''a.b.c('' = Inr (''a'', ''b'', [], None)"
  by (simp add: getHandlerParts_def Split_def Split_sep_eval Let_def)

text \<open>
  Claim C10, amended. The handler-key parser is not total. It panics with an index out
  of range on every input that has no dot (the method segment \<open>spl[1]\<close> is read
  whatever the number of segments), and on every input whose method segment has
  nothing between its first opening parenthesis and the next opening parenthesis or
  the end of the segment (the last character of the empty argument text is read): the
  inputs of the shape \<open>k.m(t\<close> with no dot in \<open>k\<close>, neither dot nor opening parenthesis
  in \<open>m\<close>, and \<open>t\<close> empty or beginning with an opening parenthesis or a dot, of which
  \<open>alias.Method(\<close> is one. It panics on no other input.
\<close>

theorem getHandlerParts_panics:
  "(CHR ''.'' \<notin> set s \<longrightarrow> getHandlerParts s = Inl IndexOutOfRange) \<and>
   (CHR ''.'' \<notin> set k \<and> CHR ''.'' \<notin> set m \<and> CHR ''('' \<notin> set m \<and>
    (t = [] \<or> hd t = CHR ''('' \<or> hd t = CHR ''.'') \<longrightarrow>
      getHandlerParts (k @ ''.'' @ m @ ''('' @ t) = Inl IndexOutOfRange) \<and>
   (getHandlerParts w = Inl p \<longrightarrow>
      CHR ''.'' \<notin> set w \<or>
      (\<exists>k m t. w = k @ ''.'' @ m @ ''('' @ t \<and> CHR ''.'' \<notin> set k \<and> CHR ''.'' \<notin> set m \<and>
         CHR ''('' \<notin> set m \<and> (t = [] \<or> hd t = CHR ''('' \<or> hd t = CHR ''.''))) \<and>
   getHandlerParts ''alias.Method('' = Inl IndexOutOfRange"
proof (intro conjI impI)
  assume "CHR ''.'' \<notin> set s"
  then show "getHandlerParts s = Inl IndexOutOfRange" by (simp add: panics_iff)
next
  assume h: "CHR ''.'' \<notin> set k \<and> CHR ''.'' \<notin> set m \<and> CHR ''('' \<notin> set m \<and>
    (t = [] \<or> hd t = CHR ''('' \<or> hd t = CHR ''.'')"
  then have "CHR ''('' \<in> set (method_segment (k @ ''.'' @ m @ ''('' @ t)) \<and>
         args_text (method_segment (k @ ''.'' @ m @ ''('' @ t)) = []"
    by (intro shape_segment) simp_all
  then show "getHandlerParts (k @ ''.'' @ m @ ''('' @ t) = Inl IndexOutOfRange"
    using panics_iff [of "k @ ''.'' @ m @ ''('' @ t"] by blast
next
  assume "getHandlerParts w = Inl p"
  moreover then have "p = IndexOutOfRange"
    by (auto simp: getHandlerParts_def Let_def split: if_splits)
  ultimately have "CHR ''.'' \<notin> set w \<or>
     (CHR ''('' \<in> set (method_segment w) \<and> args_text (method_segment w) = [])"
    using panics_iff [of w] by simp
  then show "CHR ''.'' \<notin> set w \<or>
      (\<exists>k m t. w = k @ ''.'' @ m @ ''('' @ t \<and> CHR ''.'' \<notin> set k \<and> CHR ''.'' \<notin> set m \<and>
         CHR ''('' \<notin> set m \<and> (t = [] \<or> hd t = CHR ''('' \<or> hd t = CHR ''.''))"
    using segment_shape [of w] by blast
next
  show "getHandlerParts ''alias.Method('' = Inl IndexOutOfRange"
    by (simp add: getHandlerParts_def Split_def Split_sep_eval Let_def)
qed

theorem getHandlerParts_panics_witness:
  "CHR ''.'' \<notin> set ''alias'' \<and> getHandlerParts ''alias'' = Inl IndexOutOfRange \<and>
   getHandlerParts (''a'' @ ''.'' @ ''b'' @ ''('' @ ''(x'') = Inl IndexOutOfRange \<and>
   getHandlerParts ''a.b(.c'' = Inl IndexOutOfRange \<and>
   (\<exists>k m t. ''a.b(.c'' = k @ ''.'' @ m @ ''('' @ t \<and> CHR ''.'' \<notin> set k \<and> CHR ''.'' \<notin> set m \<and>
         CHR ''('' \<notin> set m \<and> (t = [] \<or> hd t = CHR ''('' \<or> hd t = CHR ''.''))"
proof -
  have h: "getHandlerParts ''a.b(.c'' = Inl IndexOutOfRange"
    by (simp add: getHandlerParts_def Split_def Split_sep_eval Let_def)
  from getHandlerParts_panics [of "''alias''" "''a''" "''b''" "''(x''" "''a.b(.c''" IndexOutOfRange] h
  show ?thesis by simp
qed


section \<open>The alias of a key\<close>

text \<open>
  The claim C4 as it is written (for every source \<open>s\<close> and alias \<open>a\<close>, the key
  \<open>s\<close>, \<open>" as "\<close>, \<open>a\<close> parses to the alias \<open>a\<close>) fails where the source text has the
  delimiter itself: the key is split at every occurrence and the alias is the second
  piece.
\<close>

theorem ParseKey_alias_counterexample:
  "snd (ParseKey (''x as y'' @ '' as '' @ ''z'')) = ''y'' \<and>
   snd (ParseKey (''x as y'' @ '' as '' @ ''z'')) \<noteq> ''z''"
  by (simp add: ParseKey_def Split_def Split_sep_eval Let_def)

text \<open>
  Claim C4, amended. For every source \<open>s\<close> such that the delimiter \<open>" as "\<close> does not
  occur in \<open>s\<close> followed by \<open>" as"\<close> (so the first occurrence in the key is the one
  written between source and alias), and every alias \<open>a\<close> in which the delimiter does
  not occur, the key \<open>s\<close>, \<open>" as "\<close>, \<open>a\<close> parses to the key \<open>s\<close> and the alias \<open>a\<close>.
\<close>

theorem ParseKey_explicit_alias:
  assumes "\<not> Contains (s @ '' as'') '' as ''" and "\<not> Contains a '' as ''"
  shows "ParseKey (s @ '' as '' @ a) = (s, a)"
proof -
  have "Split (s @ '' as '' @ a) '' as '' = s # Split a '' as ''"
    using assms(1) by (intro Split_first) simp_all
  moreover have "Split a '' as '' = [a]"
    using assms(2) by (intro Split_absent) simp_all
  ultimately show ?thesis by (simp add: ParseKey_def)
qed

theorem ParseKey_explicit_alias_witness:
  "\<not> Contains (''github.com/user/repo'' @ '' as'') '' as '' \<and> \<not> Contains ''foo'' '' as '' \<and>
   ParseKey (''github.com/user/repo'' @ '' as '' @ ''foo'') = (''github.com/user/repo'', ''foo'')"
proof -
  have h1: "\<not> Contains (''github.com/user/repo'' @ '' as'') '' as ''" by simp
  have h2: "\<not> Contains ''foo'' '' as ''" by simp
  show ?thesis using h1 h2 ParseKey_explicit_alias [OF h1 h2] by simp
qed

section \<open>Registration\<close>

lemma find_alias: "a \<in> set (map plugin_alias xs) \<Longrightarrow> find (\<lambda>x. plugin_alias x = a) xs \<noteq> None"
  by (induction xs) auto

text \<open>
  What a registration returns: either it failed and the registry is as it was, or the
  alias was not registered and the record is added at the end.
\<close>

lemma New_cases:
  "Plugins_New lib P key upd = Inr (k, r, P1) \<Longrightarrow>
     P1 = P \<and> r \<noteq> None \<or>
     (\<exists>x. newPlugin lib (dir P) key upd = Inr (Inr x) \<and> plugin_alias x \<notin> set (map plugin_alias (ps P)) \<and>
          k = plugin_alias x \<and> r = None \<and> P1 = P\<lparr>ps := ps P @ [x]\<rparr>)"
  by (auto simp: Plugins_New_def pluginslice_append_def pluginslice_get_def find_None_iff
      split: sum.splits option.splits)

text \<open>
  Claim C2. For every registry, a registration whose identifier resolves to an alias
  that some record of the registry has (whichever record, however it got there) fails
  with the duplicate error and returns the registry as it was, so the number of records
  after the failed call is the number before it. A registration that succeeds puts its
  alias into the registry, and no registration removes an alias or changes the
  directory: so of every pair of registrations that resolve to the same alias, the
  first having succeeded, the second fails, whatever was registered in between. The
  aliases of the records stay pairwise different. The same holds for \<open>Register\<close> of
  plugin.go, where the alias is the key itself.
\<close>

theorem duplicate_registration:
  "(a \<in> set (map plugin_alias (ps P)) \<and> newPlugin lib (dir P) key upd = Inr (Inr x) \<and>
    plugin_alias x = a \<longrightarrow>
      Plugins_New lib P key upd = Inr ([], Some ErrPluginKeyExists, P)) \<and>
   (Plugins_New lib P key upd = Inr (a, None, P1) \<longrightarrow> a \<in> set (map plugin_alias (ps P1))) \<and>
   (Plugins_New lib P key upd = Inr (k, r, P1) \<longrightarrow>
      set (map plugin_alias (ps P)) \<subseteq> set (map plugin_alias (ps P1)) \<and> dir P1 = dir P) \<and>
   (distinct (map plugin_alias (ps P)) \<and> Plugins_New lib P key upd = Inr (k, r, P1) \<longrightarrow>
      distinct (map plugin_alias (ps P1))) \<and>
   (\<not> pm_closed Q \<and> kq \<in> dom (pm Q) \<longrightarrow>
      Register Q kq y =
        (Some (Error (''plugin with the key of <'' @ kq @ ''> has already been loaded'')), Q)) \<and>
   (Register Q kq y = (None, Q1) \<longrightarrow> kq \<in> dom (pm Q1) \<and> \<not> pm_closed Q1) \<and>
   (Register Q kq y = (rq, Q1) \<longrightarrow> dom (pm Q) \<subseteq> dom (pm Q1) \<and> pm_closed Q1 = pm_closed Q)"
proof (intro conjI impI)
  assume h: "a \<in> set (map plugin_alias (ps P)) \<and> newPlugin lib (dir P) key upd = Inr (Inr x) \<and>
    plugin_alias x = a"
  then have "pluginslice_get (ps P) (plugin_alias x) \<noteq> None"
    using find_alias [of a "ps P"] by (simp add: pluginslice_get_def)
  with h show "Plugins_New lib P key upd = Inr ([], Some ErrPluginKeyExists, P)"
    by (auto simp: Plugins_New_def pluginslice_append_def split: option.splits)
next
  assume "Plugins_New lib P key upd = Inr (a, None, P1)"
  from New_cases [OF this] show "a \<in> set (map plugin_alias (ps P1))" by auto
next
  assume h: "Plugins_New lib P key upd = Inr (k, r, P1)"
  from New_cases [OF h] show "set (map plugin_alias (ps P)) \<subseteq> set (map plugin_alias (ps P1))"
    by auto
  from New_cases [OF h] show "dir P1 = dir P" by auto
next
  assume h: "distinct (map plugin_alias (ps P)) \<and> Plugins_New lib P key upd = Inr (k, r, P1)"
  then have "Plugins_New lib P key upd = Inr (k, r, P1)" by simp
  from New_cases [OF this] h show "distinct (map plugin_alias (ps P1))" by auto
next
  assume "\<not> pm_closed Q \<and> kq \<in> dom (pm Q)"
  then show "Register Q kq y =
        (Some (Error (''plugin with the key of <'' @ kq @ ''> has already been loaded'')), Q)"
    by (auto simp: Register_def)
next
  assume h: "Register Q kq y = (None, Q1)"
  then show "kq \<in> dom (pm Q1)" by (auto simp: Register_def split: if_splits option.splits)
  from h show "\<not> pm_closed Q1" by (auto simp: Register_def split: if_splits option.splits)
next
  assume h: "Register Q kq y = (rq, Q1)"
  then show "dom (pm Q) \<subseteq> dom (pm Q1)" by (auto simp: Register_def split: if_splits option.splits)
  from h show "pm_closed Q1 = pm_closed Q" by (auto simp: Register_def split: if_splits option.splits)
qed

text \<open>\<open>Retrieve\<close> and \<open>Initialize\<close> keep the aliases of the records.\<close>

lemma updatePlugin_alias: "updatePlugin e x br tr = (r, x1, tr1) \<Longrightarrow> plugin_alias x1 = plugin_alias x"
  by (auto simp: updatePlugin_def Let_def split: if_splits prod.splits)

lemma retrieve_loop_aliases:
  "retrieve_loop lib e br xs keys tr = (r, ys, tr1) \<Longrightarrow> map plugin_alias ys = map plugin_alias xs"
proof (induction xs arbitrary: keys tr r ys tr1)
  case Nil
  then show ?case by simp
next
  case (Cons x xs)
  then show ?case
    by (auto simp: Let_def split: if_splits prod.splits option.splits dest: updatePlugin_alias)
qed

lemma init_alias: "init e x tr = (r, x1, tr1) \<Longrightarrow> plugin_alias x1 = plugin_alias x"
  by (auto simp: init_def exec_def split: option.splits)

lemma init_loop_aliases:
  "init_loop e xs tr = (r, ys, tr1) \<Longrightarrow> map plugin_alias ys = map plugin_alias xs"
proof (induction xs arbitrary: tr r ys tr1)
  case Nil
  then show ?case by simp
next
  case (Cons x xs)
  then show ?case
    by (auto split: prod.splits option.splits dest: init_alias)
qed


lemma newPlugin_y_as_one:
  "newPlugin lib_plain ''plugins'' ''github.com/x/y as one'' False =
     Inr (Inr \<lparr>plug = None, cm = None, importKey = ''github.com/x/y as one'',
               plugin_alias = ''one'', gitURL = ''github.com/x/y'',
               filename = ''plugins/one.so'', branch = [], update = False\<rparr>)"
  by (simp add: newPlugin_def ParseKey_def isGitReference_def lib_plain_def
      url_Parse_plain_def getGitURLParts_def removeBranchHash_def stripEmpty_def
      Split_def Split_sep_eval Let_def)

lemma newPlugin_user_four:
  "newPlugin lib_plain ''plugins'' ''github.com/user/four'' False =
     Inr (Inr \<lparr>plug = None, cm = None, importKey = ''github.com/user/four'',
               plugin_alias = ''four'', gitURL = ''github.com/user/four'',
               filename = ''plugins/four.so'', branch = [], update = False\<rparr>)"
  by (simp add: newPlugin_def ParseKey_def path_Split_def isGitReference_def lib_plain_def
      url_Parse_plain_def getGitURLParts_def removeBranchHash_def stripEmpty_def
      Split_def Split_sep_eval Let_def)

theorem duplicate_registration_witness:
  "Plugins_New lib_plain three_registry ''github.com/x/y as one'' False =
     Inr ([], Some ErrPluginKeyExists, three_registry) \<and>
   Plugins_New lib_plain three_registry ''github.com/user/four'' False =
     Inr (''four'', None,
          three_registry\<lparr>ps := ps three_registry @
            [\<lparr>plug = None, cm = None, importKey = ''github.com/user/four'',
              plugin_alias = ''four'', gitURL = ''github.com/user/four'',
              filename = ''plugins/four.so'', branch = [], update = False\<rparr>]\<rparr>) \<and>
   distinct (map plugin_alias (ps three_registry)) \<and>
   Register two_registry_pm ''db'' (PluginImpl 5) =
     (Some (Error ''plugin with the key of <db> has already been loaded''), two_registry_pm) \<and>
   Register backend_registry_pm ''cache'' (PluginImpl 4) = (None, two_registry_pm)"
proof -
  let ?x = "\<lparr>plug = None, cm = None, importKey = ''github.com/x/y as one'',
             plugin_alias = ''one'', gitURL = ''github.com/x/y'',
             filename = ''plugins/one.so'', branch = [], update = False\<rparr>"
  let ?four = "\<lparr>plug = None, cm = None, importKey = ''github.com/user/four'',
             plugin_alias = ''four'', gitURL = ''github.com/user/four'',
             filename = ''plugins/four.so'', branch = [], update = False\<rparr>"
  have al: "map plugin_alias (ps three_registry) = [''one'', ''two'', ''three'']"
    by (simp add: three_registry_def example_plugin_def)
  have h1: "''one'' \<in> set (map plugin_alias (ps three_registry)) \<and>
            newPlugin lib_plain (dir three_registry) ''github.com/x/y as one'' False =
              Inr (Inr ?x) \<and> plugin_alias ?x = ''one''"
    by (simp add: al) (simp add: three_registry_def newPlugin_y_as_one)
  have h2: "Plugins_New lib_plain three_registry ''github.com/user/four'' False =
              Inr (''four'', None, three_registry\<lparr>ps := ps three_registry @ [?four]\<rparr>)"
    by (simp add: Plugins_New_def pluginslice_append_def pluginslice_get_def
        three_registry_def example_plugin_def newPlugin_user_four)
  have h3: "distinct (map plugin_alias (ps three_registry))" by (simp add: al)
  have h4: "\<not> pm_closed two_registry_pm \<and> ''db'' \<in> dom (pm two_registry_pm)"
    by (simp add: two_registry_pm_def)
  have h5: "Register backend_registry_pm ''cache'' (PluginImpl 4) = (None, two_registry_pm)"
    by (simp add: Register_def backend_registry_pm_def two_registry_pm_def)
  from duplicate_registration
         [where P = three_registry and lib = lib_plain and key = "''github.com/x/y as one''"
            and upd = False and a = "''one''" and x = ?x and Q = two_registry_pm
            and kq = "''db''" and y = "PluginImpl 5"]
       h1 h4
  have "Plugins_New lib_plain three_registry ''github.com/x/y as one'' False =
          Inr ([], Some ErrPluginKeyExists, three_registry)"
    and "Register two_registry_pm ''db'' (PluginImpl 5) =
          (Some (Error (''plugin with the key of <'' @ ''db'' @ ''> has already been loaded'')),
           two_registry_pm)"
    by blast+
  with h2 h3 h5 show ?thesis by simp
qed

text \<open>
  Claim C3, on the code. The key \<open>./local/foo.so\<close> gets the alias \<open>foo.so\<close>, not
  \<open>foo\<close>: \<open>ParseKey\<close> has derived a non-empty alias from the last path element, so the
  branch that would take the file name without its extension (\<open>getPluginKey\<close>) is not
  reached. In plugin.go the record is local (no repository URL) and its file is the key
  as given. In the revision that asks \<open>isGitReference\<close> first the same alias results;
  the record is local with the key as its file only if \<open>url.Parse\<close> rejects the key, and
  otherwise has the key as repository URL and a file under the registry's directory.
\<close>

theorem newPlugin_local_so:
  "newPlugin_plugin_go lib d ''./local/foo.so'' upd =
     Inr (Inr \<lparr>plug = None, cm = None, importKey = ''./local/foo.so'',
               plugin_alias = ''foo.so'', gitURL = [], filename = ''./local/foo.so'',
               branch = [], update = upd\<rparr>) \<and>
   (newPlugin lib d ''./local/foo.so'' upd = Inr (Inr x) \<longrightarrow>
      plugin_alias x = ''foo.so'' \<and>
      (if isGitReference lib ''./local/foo.so''
       then gitURL x = ''./local/foo.so'' \<and> filename x = path_Join lib [d, ''foo.so.so'']
       else gitURL x = [] \<and> filename x = ''./local/foo.so''))"
proof -
  have pk: "ParseKey ''./local/foo.so'' = (''./local/foo.so'', ''foo.so'')"
    by (simp add: ParseKey_def Split_def Split_sep_eval Let_def path_Split_def)
  have ext: "filepath_Ext ''./local/foo.so'' = ''.so''"
    by (simp add: filepath_Ext_def)
  have rb: "removeBranchHash ''./local/foo.so'' = ''./local/foo.so''"
    by (simp add: removeBranchHash_def Split_def Split_sep_eval)
  show ?thesis
    using pk ext rb
    by (auto simp: newPlugin_def newPlugin_plugin_go_def parseKey_def Let_def
        split: sum.splits prod.splits option.splits if_splits)
qed

lemma newPlugin_plain_local_so:
  "newPlugin lib_plain ''plugins'' ''./local/foo.so'' False =
     Inr (Inr \<lparr>plug = None, cm = None, importKey = ''./local/foo.so'',
               plugin_alias = ''foo.so'', gitURL = ''./local/foo.so'',
               filename = ''plugins/foo.so.so'', branch = [], update = False\<rparr>)"
  by (simp add: newPlugin_def ParseKey_def path_Split_def isGitReference_def lib_plain_def
      url_Parse_plain_def getGitURLParts_def removeBranchHash_def stripEmpty_def
      Split_def Split_sep_eval Let_def)

theorem newPlugin_local_so_witness:
  "newPlugin lib_plain ''plugins'' ''./local/foo.so'' False =
     Inr (Inr \<lparr>plug = None, cm = None, importKey = ''./local/foo.so'',
               plugin_alias = ''foo.so'', gitURL = ''./local/foo.so'',
               filename = ''plugins/foo.so.so'', branch = [], update = False\<rparr>) \<and>
   plugin_alias \<lparr>plug = None, cm = None, importKey = ''./local/foo.so'',
               plugin_alias = ''foo.so'', gitURL = ''./local/foo.so'',
               filename = ''plugins/foo.so.so'', branch = [], update = False\<rparr> = ''foo.so''"
  using newPlugin_plain_local_so
    newPlugin_local_so [of lib_plain "''plugins''" False
      "\<lparr>plug = None, cm = None, importKey = ''./local/foo.so'',
        plugin_alias = ''foo.so'', gitURL = ''./local/foo.so'',
        filename = ''plugins/foo.so.so'', branch = [], update = False\<rparr>"]
  by simp

section \<open>Testing a record\<close>

text \<open>
  Claim C6. For every record whose artifact file exists (and is not a directory) and
  whose update flag is false, \<open>test\<close> returns no error and the trace it was given: no
  process, and so no test toolchain, is run. The function assigns to no field of the
  record.
\<close>

theorem test_skipped:
  assumes "doesPluginExist e tr (filename pl)" and "\<not> update pl"
  shows "test e pl tr = (None, tr)"
  using assms by (simp add: test_def)

theorem test_skipped_witness:
  "doesPluginExist env_failing [] (filename (example_plugin ''foo'' ''github.com/user/foo'' [] [])) \<and>
   \<not> update (example_plugin ''foo'' ''github.com/user/foo'' [] []) \<and>
   test env_failing (example_plugin ''foo'' ''github.com/user/foo'' [] []) [] = (None, [])"
proof -
  have h1: "doesPluginExist env_failing []
              (filename (example_plugin ''foo'' ''github.com/user/foo'' [] []))"
    by (simp add: doesPluginExist_def env_failing_def env_of_def)
  have h2: "\<not> update (example_plugin ''foo'' ''github.com/user/foo'' [] [])"
    by (simp add: example_plugin_def)
  show ?thesis using h1 h2 test_skipped [OF h1 h2] by simp
qed

section \<open>The closed registry\<close>

text \<open>
  A second \<open>Close\<close> returns the closed-registry error and leaves the registry and the
  trace as they are: no record's \<open>Close\<close> function is called again.
\<close>

lemma Close_twice:
  assumes "Close e P tr = Inr (r, P1, tr1)"
  shows "Close e P1 tr2 = Inr (Some ErrIsClosed, P1, tr2)"
proof -
  from assms have "closed P1"
    by (auto simp: Close_def split: if_splits sum.splits)
  then show ?thesis by (simp add: Close_def)
qed

text \<open>
  Claim C1, on the code. The registry sets its closed flag in \<open>Close\<close>, and a second
  \<open>Close\<close> returns the closed-registry error without calling any record's \<open>Close\<close>
  function again; but none of the batch operations reads the flag. After \<open>Close\<close> has
  closed the example registry: \<open>Build\<close> returns no error and runs the build of the
  record; \<open>Test\<close> returns no error; \<open>Retrieve\<close> returns no error and pulls the
  repository; \<open>Initialize\<close> returns no error, calls the loader and stores the code
  module in the record; registration returns no error and adds a record. None returns
  the closed-registry error, and three of them change the registry.
\<close>

theorem operations_after_Close:
  "Close env_quiet example_registry [] =
     Inr (None, example_registry\<lparr>closed := True\<rparr>, [CallErrorFunc 7]) \<and>
   Close env_quiet (example_registry\<lparr>closed := True\<rparr>) [CallErrorFunc 7] =
     Inr (Some ErrIsClosed, example_registry\<lparr>closed := True\<rparr>, [CallErrorFunc 7]) \<and>
   Build env_quiet (example_registry\<lparr>closed := True\<rparr>) [CallErrorFunc 7] =
     (None, [CallErrorFunc 7, GoBuild ''github.com/user/repo'' ''plugins/repo.so'']) \<and>
   Test env_quiet (example_registry\<lparr>closed := True\<rparr>) [CallErrorFunc 7] =
     (None, [CallErrorFunc 7]) \<and>
   Retrieve lib_plain env_quiet (example_registry\<lparr>closed := True\<rparr>) [CallErrorFunc 7] =
     (None, example_registry\<lparr>closed := True\<rparr>,
      [CallErrorFunc 7, GitPull ''github.com/user/repo'']) \<and>
   Initialize env_quiet (example_registry\<lparr>closed := True\<rparr>) [CallErrorFunc 7] =
     (None,
      example_registry\<lparr>closed := True,
        ps := [(example_plugin ''repo'' ''github.com/user/repo'' [] [(''Close'', FuncError 7)])
                 \<lparr>cm := Some []\<rparr>]\<rparr>,
      [CallErrorFunc 7, RegSymbol, ReadObjs ''plugins/repo.so'',
       LoadModule ''plugins/repo.so'']) \<and>
   Plugins_New lib_plain (example_registry\<lparr>closed := True\<rparr>) ''github.com/user/other'' False =
     Inr (''other'', None,
          example_registry\<lparr>closed := True,
            ps := [example_plugin ''repo'' ''github.com/user/repo'' [] [(''Close'', FuncError 7)],
                   \<lparr>plug = None, cm = None, importKey = ''github.com/user/other'',
                    plugin_alias = ''other'', gitURL = ''github.com/user/other'',
                    filename = ''plugins/other.so'', branch = [], update = False\<rparr>]\<rparr>)"
proof -
  have np: "newPlugin lib_plain ''plugins'' ''github.com/user/other'' False =
     Inr (Inr \<lparr>plug = None, cm = None, importKey = ''github.com/user/other'',
               plugin_alias = ''other'', gitURL = ''github.com/user/other'',
               filename = ''plugins/other.so'', branch = [], update = False\<rparr>)"
    by (simp add: newPlugin_def ParseKey_def path_Split_def isGitReference_def lib_plain_def
        url_Parse_plain_def getGitURLParts_def removeBranchHash_def stripEmpty_def
        Split_def Split_sep_eval Let_def)
  have gr: "gitRepoFromURL lib_plain ''github.com/user/repo'' = ''github.com/user/repo''"
    by (simp add: gitRepoFromURL_def Split_def Split_sep_eval Let_def)
  have c: "Close env_quiet example_registry [] =
     Inr (None, example_registry\<lparr>closed := True\<rparr>, [CallErrorFunc 7])"
    by (simp add: Close_def closePlugin_def env_quiet_def env_of_def example_registry_def
        example_plugin_def Err_def)
  have c2: "Close env_quiet (example_registry\<lparr>closed := True\<rparr>) [CallErrorFunc 7] =
     Inr (Some ErrIsClosed, example_registry\<lparr>closed := True\<rparr>, [CallErrorFunc 7])"
    by (simp add: Close_def)
  have b: "Build env_quiet (example_registry\<lparr>closed := True\<rparr>) [CallErrorFunc 7] =
     (None, [CallErrorFunc 7, GoBuild ''github.com/user/repo'' ''plugins/repo.so''])"
    by (simp add: Build_def build_def goBuild_def exec_def env_quiet_def env_of_def
        example_registry_def example_plugin_def silent_def)
  have t: "Test env_quiet (example_registry\<lparr>closed := True\<rparr>) [CallErrorFunc 7] =
     (None, [CallErrorFunc 7])"
    by (simp add: Test_def test_def doesPluginExist_def env_quiet_def env_of_def
        example_registry_def example_plugin_def)
  have r: "Retrieve lib_plain env_quiet (example_registry\<lparr>closed := True\<rparr>) [CallErrorFunc 7] =
     (None, example_registry\<lparr>closed := True\<rparr>,
      [CallErrorFunc 7, GitPull ''github.com/user/repo''])"
    by (simp add: Retrieve_def example_registry_def example_plugin_def gr isLocal_def
        updatePlugin_def doesPluginSourceExist_def pullLatest_def gitPull_def exec_def
        env_quiet_def env_of_def silent_def)
  have i: "Initialize env_quiet (example_registry\<lparr>closed := True\<rparr>) [CallErrorFunc 7] =
     (None,
      example_registry\<lparr>closed := True,
        ps := [(example_plugin ''repo'' ''github.com/user/repo'' [] [(''Close'', FuncError 7)])
                 \<lparr>cm := Some []\<rparr>]\<rparr>,
      [CallErrorFunc 7, RegSymbol, ReadObjs ''plugins/repo.so'',
       LoadModule ''plugins/repo.so''])"
    by (simp add: Initialize_def init_def exec_def example_registry_def example_plugin_def
        env_quiet_def env_of_def silent_def)
  have n: "Plugins_New lib_plain (example_registry\<lparr>closed := True\<rparr>)
             ''github.com/user/other'' False =
     Inr (''other'', None,
          example_registry\<lparr>closed := True,
            ps := [example_plugin ''repo'' ''github.com/user/repo'' [] [(''Close'', FuncError 7)],
                   \<lparr>plug = None, cm = None, importKey = ''github.com/user/other'',
                    plugin_alias = ''other'', gitURL = ''github.com/user/other'',
                    filename = ''plugins/other.so'', branch = [], update = False\<rparr>]\<rparr>)"
    by (simp add: Plugins_New_def pluginslice_append_def pluginslice_get_def
        example_registry_def example_plugin_def np)
  from c c2 b t r i n show ?thesis by blast
qed

section \<open>Sequential and queued builds\<close>











section \<open>Resolving the target branch or version\<close>

lemma checkout_trace: "snd (checkout e pl tr) = tr @ [GitCheckout (gitURL pl) (branch pl)]"
  by (simp add: checkout_def gitCheckout_def exec_def split: prod.splits)

lemma gitFetchTags_trace: "snd (gitFetchTags e u tr) = tr @ [GitFetchTags u]"
  by (simp add: gitFetchTags_def exec_def)

lemma updateDependencies_trace: "snd (updateDependencies e pl tr) = tr @ [GoModDownload (gitURL pl)]"
  by (simp add: updateDependencies_def updatePluginDependencies_def exec_def split: option.splits)

lemmas acquisition_eval = checkout_def gitCheckout_def gitFetchTags_def updateDependencies_def
  updatePluginDependencies_def exec_def env_of_def pinned_plugin_def example_plugin_def
  silent_def failed_def doesPluginSourceExist_def

text \<open>
  The claim C5 as it is written (a checkout that fails for an unrecognized reason
  triggers one fetch of the tags followed by one retry of the checkout) fails when the
  fetch fails: the error of the fetch is returned at once and the checkout is not tried
  again. Here the checkout fails with a message that does not hold \<open>HEAD is now at\<close>,
  the fetch fails, and the trace ends with the fetch.
\<close>

theorem no_retry_counterexample:
  "checkout env_no_remote pinned_plugin [] =
     (Some (Error ''error: pathspec did not match''),
      [GitCheckout ''github.com/user/repo'' ''v1.2.0'']) \<and>
   \<not> Contains ''error: pathspec did not match'' ''HEAD is now at'' \<and>
   setTargetBranch env_no_remote pinned_plugin [] =
     ((True, Some (Error ''exit status 1'')),
      [GitCheckout ''github.com/user/repo'' ''v1.2.0'', GitFetchTags ''github.com/user/repo''])"
  by (simp add: setTargetBranch_def acquisition_eval env_no_remote_def run_no_remote_def)

text \<open>
  Claim C5, amended. For a record with a pinned branch or version, every path of the
  resolution: a checkout that succeeds asks for the pull. A checkout (the first, or
  the retried one) whose error message holds \<open>HEAD is now at\<close> ends the resolution
  with success: the dependencies are updated, no pull is asked for, and \<open>updatePlugin\<close>
  returns after the dependency update without a pull. A first checkout that fails with
  any other message triggers exactly one fetch of all tags. When the fetch fails, its
  error is returned to the caller and the checkout is not tried again. When the fetch
  succeeds, the checkout is tried exactly once more: if it succeeds the pull is asked
  for, and if it fails with a message that does not hold \<open>HEAD is now at\<close>, that error
  is returned to the caller. (For \<open>updatePlugin\<close> the record has a repository and a
  branch, its source exists and the registry has no branch override.)
\<close>

theorem setTargetBranch_outcomes:
  "(checkout e pl tr = (None, tr1) \<longrightarrow>
      setTargetBranch e pl tr = ((True, None), tr @ [GitCheckout (gitURL pl) (branch pl)])) \<and>
   (checkout e pl tr = (Some err1, tr1) \<and> Contains (Error_msg err1) ''HEAD is now at'' \<longrightarrow>
      setTargetBranch e pl tr =
        ((False, fst (updateDependencies e pl tr1)),
         tr @ [GitCheckout (gitURL pl) (branch pl), GoModDownload (gitURL pl)]) \<and>
      (gitURL pl \<noteq> [] \<and> branch pl \<noteq> [] \<and> doesPluginSourceExist e tr (gitURL pl) \<longrightarrow>
         updatePlugin e pl [] tr =
           (fst (updateDependencies e pl tr1), pl,
            tr @ [GitCheckout (gitURL pl) (branch pl), GoModDownload (gitURL pl)]))) \<and>
   (checkout e pl tr = (Some err1, tr1) \<and> \<not> Contains (Error_msg err1) ''HEAD is now at'' \<and>
    gitFetchTags e (gitURL pl) tr1 = (Some err2, tr2) \<longrightarrow>
      setTargetBranch e pl tr =
        ((True, Some err2),
         tr @ [GitCheckout (gitURL pl) (branch pl), GitFetchTags (gitURL pl)]) \<and>
      (gitURL pl \<noteq> [] \<and> branch pl \<noteq> [] \<and> doesPluginSourceExist e tr (gitURL pl) \<longrightarrow>
         updatePlugin e pl [] tr =
           (Some err2, pl,
            tr @ [GitCheckout (gitURL pl) (branch pl), GitFetchTags (gitURL pl)]))) \<and>
   (checkout e pl tr = (Some err1, tr1) \<and> \<not> Contains (Error_msg err1) ''HEAD is now at'' \<and>
    gitFetchTags e (gitURL pl) tr1 = (None, tr2) \<and> checkout e pl tr2 = (None, tr3) \<longrightarrow>
      setTargetBranch e pl tr =
        ((True, None),
         tr @ [GitCheckout (gitURL pl) (branch pl), GitFetchTags (gitURL pl),
               GitCheckout (gitURL pl) (branch pl)])) \<and>
   (checkout e pl tr = (Some err1, tr1) \<and> \<not> Contains (Error_msg err1) ''HEAD is now at'' \<and>
    gitFetchTags e (gitURL pl) tr1 = (None, tr2) \<and>
    checkout e pl tr2 = (Some err3, tr3) \<and> Contains (Error_msg err3) ''HEAD is now at'' \<longrightarrow>
      setTargetBranch e pl tr =
        ((False, fst (updateDependencies e pl tr3)),
         tr @ [GitCheckout (gitURL pl) (branch pl), GitFetchTags (gitURL pl),
               GitCheckout (gitURL pl) (branch pl), GoModDownload (gitURL pl)]) \<and>
      (gitURL pl \<noteq> [] \<and> branch pl \<noteq> [] \<and> doesPluginSourceExist e tr (gitURL pl) \<longrightarrow>
         updatePlugin e pl [] tr =
           (fst (updateDependencies e pl tr3), pl,
            tr @ [GitCheckout (gitURL pl) (branch pl), GitFetchTags (gitURL pl),
                  GitCheckout (gitURL pl) (branch pl), GoModDownload (gitURL pl)]))) \<and>
   (checkout e pl tr = (Some err1, tr1) \<and> \<not> Contains (Error_msg err1) ''HEAD is now at'' \<and>
    gitFetchTags e (gitURL pl) tr1 = (None, tr2) \<and>
    checkout e pl tr2 = (Some err3, tr3) \<and> \<not> Contains (Error_msg err3) ''HEAD is now at'' \<longrightarrow>
      setTargetBranch e pl tr =
        ((True, Some err3),
         tr @ [GitCheckout (gitURL pl) (branch pl), GitFetchTags (gitURL pl),
               GitCheckout (gitURL pl) (branch pl)]) \<and>
      (gitURL pl \<noteq> [] \<and> branch pl \<noteq> [] \<and> doesPluginSourceExist e tr (gitURL pl) \<longrightarrow>
         updatePlugin e pl [] tr =
           (Some err3, pl,
            tr @ [GitCheckout (gitURL pl) (branch pl), GitFetchTags (gitURL pl),
                  GitCheckout (gitURL pl) (branch pl)])))"
proof -
  let ?co = "GitCheckout (gitURL pl) (branch pl)"
  let ?ft = "GitFetchTags (gitURL pl)"
  let ?md = "GoModDownload (gitURL pl)"
  let ?pinned = "gitURL pl \<noteq> [] \<and> branch pl \<noteq> [] \<and> doesPluginSourceExist e tr (gitURL pl)"
  have up: "\<And>r t. ?pinned \<Longrightarrow> setTargetBranch e pl tr = ((False, r), t) \<Longrightarrow>
              updatePlugin e pl [] tr = (r, pl, t)"
    by (simp add: updatePlugin_def)
  have uperr: "\<And>x t. ?pinned \<Longrightarrow> setTargetBranch e pl tr = ((True, Some x), t) \<Longrightarrow>
              updatePlugin e pl [] tr = (Some x, pl, t)"
    by (simp add: updatePlugin_def)
  have c1: "\<And>r t. checkout e pl tr = (r, t) \<Longrightarrow> t = tr @ [?co]"
    using checkout_trace [of e pl tr] by simp
  have f: "\<And>r t. gitFetchTags e (gitURL pl) (tr @ [?co]) = (r, t) \<Longrightarrow> t = tr @ [?co, ?ft]"
    using gitFetchTags_trace [of e "gitURL pl" "tr @ [?co]"] by simp
  have c2: "\<And>r t. checkout e pl (tr @ [?co, ?ft]) = (r, t) \<Longrightarrow> t = tr @ [?co, ?ft, ?co]"
    using checkout_trace [of e pl "tr @ [?co, ?ft]"] by simp
  have A: "checkout e pl tr = (None, tr1) \<longrightarrow>
      setTargetBranch e pl tr = ((True, None), tr @ [?co])"
    using c1 by (auto simp: setTargetBranch_def)
  have B: "checkout e pl tr = (Some err1, tr1) \<and> Contains (Error_msg err1) ''HEAD is now at'' \<longrightarrow>
      setTargetBranch e pl tr = ((False, fst (updateDependencies e pl tr1)), tr @ [?co, ?md])"
  proof
    assume h: "checkout e pl tr = (Some err1, tr1) \<and> Contains (Error_msg err1) ''HEAD is now at''"
    then have "tr1 = tr @ [?co]" using c1 by blast
    with h updateDependencies_trace [of e pl tr1] show "setTargetBranch e pl tr =
        ((False, fst (updateDependencies e pl tr1)), tr @ [?co, ?md])"
      by (simp add: setTargetBranch_def case_prod_beta)
  qed
  have C: "checkout e pl tr = (Some err1, tr1) \<and> \<not> Contains (Error_msg err1) ''HEAD is now at'' \<and>
    gitFetchTags e (gitURL pl) tr1 = (Some err2, tr2) \<longrightarrow>
      setTargetBranch e pl tr = ((True, Some err2), tr @ [?co, ?ft])"
  proof
    assume h: "checkout e pl tr = (Some err1, tr1) \<and> \<not> Contains (Error_msg err1) ''HEAD is now at'' \<and>
      gitFetchTags e (gitURL pl) tr1 = (Some err2, tr2)"
    then have "tr1 = tr @ [?co]" using c1 by blast
    moreover with h have "tr2 = tr @ [?co, ?ft]" using f by blast
    ultimately show "setTargetBranch e pl tr = ((True, Some err2), tr @ [?co, ?ft])"
      using h by (simp add: setTargetBranch_def)
  qed
  have D: "checkout e pl tr = (Some err1, tr1) \<and> \<not> Contains (Error_msg err1) ''HEAD is now at'' \<and>
    gitFetchTags e (gitURL pl) tr1 = (None, tr2) \<and> checkout e pl tr2 = (None, tr3) \<longrightarrow>
      setTargetBranch e pl tr = ((True, None), tr @ [?co, ?ft, ?co])"
  proof
    assume h: "checkout e pl tr = (Some err1, tr1) \<and> \<not> Contains (Error_msg err1) ''HEAD is now at'' \<and>
      gitFetchTags e (gitURL pl) tr1 = (None, tr2) \<and> checkout e pl tr2 = (None, tr3)"
    then have t1: "tr1 = tr @ [?co]" using c1 by blast
    with h have t2: "tr2 = tr @ [?co, ?ft]" using f by blast
    with h have "tr3 = tr @ [?co, ?ft, ?co]" using c2 by blast
    with t1 t2 h show "setTargetBranch e pl tr = ((True, None), tr @ [?co, ?ft, ?co])"
      by (simp add: setTargetBranch_def)
  qed
  have E: "checkout e pl tr = (Some err1, tr1) \<and> \<not> Contains (Error_msg err1) ''HEAD is now at'' \<and>
    gitFetchTags e (gitURL pl) tr1 = (None, tr2) \<and>
    checkout e pl tr2 = (Some err3, tr3) \<and> Contains (Error_msg err3) ''HEAD is now at'' \<longrightarrow>
      setTargetBranch e pl tr =
        ((False, fst (updateDependencies e pl tr3)), tr @ [?co, ?ft, ?co, ?md])"
  proof
    assume h: "checkout e pl tr = (Some err1, tr1) \<and> \<not> Contains (Error_msg err1) ''HEAD is now at'' \<and>
      gitFetchTags e (gitURL pl) tr1 = (None, tr2) \<and>
      checkout e pl tr2 = (Some err3, tr3) \<and> Contains (Error_msg err3) ''HEAD is now at''"
    then have t1: "tr1 = tr @ [?co]" using c1 by blast
    with h have t2: "tr2 = tr @ [?co, ?ft]" using f by blast
    with h have "tr3 = tr @ [?co, ?ft, ?co]" using c2 by blast
    with t1 t2 h updateDependencies_trace [of e pl tr3] show "setTargetBranch e pl tr =
        ((False, fst (updateDependencies e pl tr3)), tr @ [?co, ?ft, ?co, ?md])"
      by (simp add: setTargetBranch_def case_prod_beta)
  qed
  have F: "checkout e pl tr = (Some err1, tr1) \<and> \<not> Contains (Error_msg err1) ''HEAD is now at'' \<and>
    gitFetchTags e (gitURL pl) tr1 = (None, tr2) \<and>
    checkout e pl tr2 = (Some err3, tr3) \<and> \<not> Contains (Error_msg err3) ''HEAD is now at'' \<longrightarrow>
      setTargetBranch e pl tr = ((True, Some err3), tr @ [?co, ?ft, ?co])"
  proof
    assume h: "checkout e pl tr = (Some err1, tr1) \<and> \<not> Contains (Error_msg err1) ''HEAD is now at'' \<and>
      gitFetchTags e (gitURL pl) tr1 = (None, tr2) \<and>
      checkout e pl tr2 = (Some err3, tr3) \<and> \<not> Contains (Error_msg err3) ''HEAD is now at''"
    then have t1: "tr1 = tr @ [?co]" using c1 by blast
    with h have t2: "tr2 = tr @ [?co, ?ft]" using f by blast
    with h have "tr3 = tr @ [?co, ?ft, ?co]" using c2 by blast
    with t1 t2 h show "setTargetBranch e pl tr = ((True, Some err3), tr @ [?co, ?ft, ?co])"
      by (simp add: setTargetBranch_def)
  qed
  from A B C D E F up uperr show ?thesis by blast
qed


theorem setTargetBranch_outcomes_witness:
  "setTargetBranch env_quiet pinned_plugin [] =
     ((True, None), [GitCheckout ''github.com/user/repo'' ''v1.2.0'']) \<and>
   setTargetBranch env_detached pinned_plugin [] =
     ((False, None),
      [GitCheckout ''github.com/user/repo'' ''v1.2.0'', GoModDownload ''github.com/user/repo'']) \<and>
   updatePlugin env_detached pinned_plugin [] [] =
     (None, pinned_plugin,
      [GitCheckout ''github.com/user/repo'' ''v1.2.0'', GoModDownload ''github.com/user/repo'']) \<and>
   setTargetBranch env_no_remote pinned_plugin [] =
     ((True, Some (Error ''exit status 1'')),
      [GitCheckout ''github.com/user/repo'' ''v1.2.0'', GitFetchTags ''github.com/user/repo'']) \<and>
   updatePlugin env_no_remote pinned_plugin [] [] =
     (Some (Error ''exit status 1''), pinned_plugin,
      [GitCheckout ''github.com/user/repo'' ''v1.2.0'', GitFetchTags ''github.com/user/repo'']) \<and>
   setTargetBranch env_branch_after_fetch pinned_plugin [] =
     ((True, None),
      [GitCheckout ''github.com/user/repo'' ''v1.2.0'', GitFetchTags ''github.com/user/repo'',
       GitCheckout ''github.com/user/repo'' ''v1.2.0'']) \<and>
   setTargetBranch env_tag_after_fetch pinned_plugin [] =
     ((False, None),
      [GitCheckout ''github.com/user/repo'' ''v1.2.0'', GitFetchTags ''github.com/user/repo'',
       GitCheckout ''github.com/user/repo'' ''v1.2.0'', GoModDownload ''github.com/user/repo'']) \<and>
   updatePlugin env_tag_after_fetch pinned_plugin [] [] =
     (None, pinned_plugin,
      [GitCheckout ''github.com/user/repo'' ''v1.2.0'', GitFetchTags ''github.com/user/repo'',
       GitCheckout ''github.com/user/repo'' ''v1.2.0'', GoModDownload ''github.com/user/repo'']) \<and>
   setTargetBranch env_unknown_ref pinned_plugin [] =
     ((True, Some (Error ''error: pathspec did not match'')),
      [GitCheckout ''github.com/user/repo'' ''v1.2.0'', GitFetchTags ''github.com/user/repo'',
       GitCheckout ''github.com/user/repo'' ''v1.2.0'']) \<and>
   updatePlugin env_unknown_ref pinned_plugin [] [] =
     (Some (Error ''error: pathspec did not match''), pinned_plugin,
      [GitCheckout ''github.com/user/repo'' ''v1.2.0'', GitFetchTags ''github.com/user/repo'',
       GitCheckout ''github.com/user/repo'' ''v1.2.0''])"
proof -
  let ?co = "GitCheckout ''github.com/user/repo'' ''v1.2.0''"
  let ?ft = "GitFetchTags ''github.com/user/repo''"
  let ?no = "Error ''error: pathspec did not match''"
  let ?hd = "Error ''HEAD is now at 1a2b3c4 release''"
  have u: "gitURL pinned_plugin = ''github.com/user/repo''"
    and b: "branch pinned_plugin = ''v1.2.0''"
    by (simp_all add: pinned_plugin_def example_plugin_def)
  have pin: "\<And>r. gitURL pinned_plugin \<noteq> [] \<and> branch pinned_plugin \<noteq> [] \<and>
            doesPluginSourceExist (env_of r (\<lambda>n. GNil)) [] (gitURL pinned_plugin)"
    by (simp add: acquisition_eval)
  note t = setTargetBranch_outcomes
  have a0: "checkout env_quiet pinned_plugin [] = (None, [?co])"
    by (simp add: acquisition_eval env_quiet_def)
  have a1: "checkout env_detached pinned_plugin [] = (Some ?hd, [?co]) \<and>
            Contains (Error_msg ?hd) ''HEAD is now at''"
    by (simp add: acquisition_eval env_detached_def run_detached_def)
  have a3: "fst (updateDependencies env_detached pinned_plugin [?co]) = None"
    by (simp add: acquisition_eval env_detached_def run_detached_def)
  have b1: "checkout env_no_remote pinned_plugin [] = (Some ?no, [?co]) \<and>
            \<not> Contains (Error_msg ?no) ''HEAD is now at'' \<and>
            gitFetchTags env_no_remote (gitURL pinned_plugin) [?co] =
              (Some (Error ''exit status 1''), [?co, ?ft])"
    by (simp add: acquisition_eval env_no_remote_def run_no_remote_def)
  have c1: "checkout env_unknown_ref pinned_plugin [] = (Some ?no, [?co]) \<and>
            \<not> Contains (Error_msg ?no) ''HEAD is now at'' \<and>
            gitFetchTags env_unknown_ref (gitURL pinned_plugin) [?co] = (None, [?co, ?ft]) \<and>
            checkout env_unknown_ref pinned_plugin [?co, ?ft] = (Some ?no, [?co, ?ft, ?co]) \<and>
            \<not> Contains (Error_msg ?no) ''HEAD is now at''"
    by (simp add: acquisition_eval env_unknown_ref_def run_unknown_ref_def)
  have d1: "checkout env_branch_after_fetch pinned_plugin [] = (Some ?no, [?co]) \<and>
            \<not> Contains (Error_msg ?no) ''HEAD is now at'' \<and>
            gitFetchTags env_branch_after_fetch (gitURL pinned_plugin) [?co] = (None, [?co, ?ft]) \<and>
            checkout env_branch_after_fetch pinned_plugin [?co, ?ft] = (None, [?co, ?ft, ?co])"
    by (simp add: acquisition_eval env_branch_after_fetch_def run_branch_after_fetch_def)
  have e1: "checkout env_tag_after_fetch pinned_plugin [] = (Some ?no, [?co]) \<and>
            \<not> Contains (Error_msg ?no) ''HEAD is now at'' \<and>
            gitFetchTags env_tag_after_fetch (gitURL pinned_plugin) [?co] = (None, [?co, ?ft]) \<and>
            checkout env_tag_after_fetch pinned_plugin [?co, ?ft] = (Some ?hd, [?co, ?ft, ?co]) \<and>
            Contains (Error_msg ?hd) ''HEAD is now at''"
    by (simp add: acquisition_eval env_tag_after_fetch_def run_tag_after_fetch_def)
  have e3: "fst (updateDependencies env_tag_after_fetch pinned_plugin [?co, ?ft, ?co]) = None"
    by (simp add: acquisition_eval env_tag_after_fetch_def run_tag_after_fetch_def)
  from t [where e = env_quiet and pl = pinned_plugin and tr = "[]" and ?tr1.0 = "[?co]"] a0
  have r0: "setTargetBranch env_quiet pinned_plugin [] = ((True, None), [?co])"
    by (simp add: u b)
  from t [where e = env_detached and pl = pinned_plugin and tr = "[]" and ?err1.0 = ?hd
            and ?tr1.0 = "[?co]"]
    a1 a3 pin [of run_detached]
  have r1: "setTargetBranch env_detached pinned_plugin [] =
              ((False, None), [?co, GoModDownload ''github.com/user/repo''])"
    and r2: "updatePlugin env_detached pinned_plugin [] [] =
              (None, pinned_plugin, [?co, GoModDownload ''github.com/user/repo''])"
    by (simp_all add: u b env_detached_def)
  from t [where e = env_no_remote and pl = pinned_plugin and tr = "[]" and ?err1.0 = ?no
            and ?tr1.0 = "[?co]" and ?err2.0 = "Error ''exit status 1''"
            and ?tr2.0 = "[?co, ?ft]"]
    b1 pin [of run_no_remote]
  have r3: "setTargetBranch env_no_remote pinned_plugin [] =
              ((True, Some (Error ''exit status 1'')), [?co, ?ft])"
    and r4: "updatePlugin env_no_remote pinned_plugin [] [] =
              (Some (Error ''exit status 1''), pinned_plugin, [?co, ?ft])"
    by (simp_all add: u b env_no_remote_def)
  from t [where e = env_branch_after_fetch and pl = pinned_plugin and tr = "[]"
            and ?err1.0 = ?no and ?tr1.0 = "[?co]" and ?tr2.0 = "[?co, ?ft]"
            and ?tr3.0 = "[?co, ?ft, ?co]"]
    d1
  have r5: "setTargetBranch env_branch_after_fetch pinned_plugin [] =
              ((True, None), [?co, ?ft, ?co])"
    by (simp add: u b)
  from t [where e = env_tag_after_fetch and pl = pinned_plugin and tr = "[]"
            and ?err1.0 = ?no and ?tr1.0 = "[?co]" and ?tr2.0 = "[?co, ?ft]"
            and ?err3.0 = ?hd and ?tr3.0 = "[?co, ?ft, ?co]"]
    e1 e3 pin [of run_tag_after_fetch]
  have r6: "setTargetBranch env_tag_after_fetch pinned_plugin [] =
              ((False, None), [?co, ?ft, ?co, GoModDownload ''github.com/user/repo''])"
    and r7: "updatePlugin env_tag_after_fetch pinned_plugin [] [] =
              (None, pinned_plugin, [?co, ?ft, ?co, GoModDownload ''github.com/user/repo''])"
    by (simp_all add: u b env_tag_after_fetch_def)
  from t [where e = env_unknown_ref and pl = pinned_plugin and tr = "[]"
            and ?err1.0 = ?no and ?tr1.0 = "[?co]" and ?tr2.0 = "[?co, ?ft]"
            and ?err3.0 = ?no and ?tr3.0 = "[?co, ?ft, ?co]"]
    c1 pin [of run_unknown_ref]
  have r8: "setTargetBranch env_unknown_ref pinned_plugin [] =
              ((True, Some ?no), [?co, ?ft, ?co])"
    and r9: "updatePlugin env_unknown_ref pinned_plugin [] [] =
              (Some ?no, pinned_plugin, [?co, ?ft, ?co])"
    by (simp_all add: u b env_unknown_ref_def)
  from r0 r1 r2 r3 r4 r5 r6 r7 r8 r9 show ?thesis by simp
qed

section \<open>Panics of the backend binding\<close>

text \<open>
  Claim C9. \<open>Backend\<close> is not total. In both revisions, once the plugin is found (and,
  in the registry of records, its \<open>Backend\<close> symbol is a function returning
  \<open>interface{}\<close>): a destination that is not a pointer (a value of another kind, or the
  \<open>nil\<close> interface) makes \<open>Elem\<close> panic; and with a destination that is a pointer to
  a variable, a backend value that is \<open>nil\<close> makes \<open>Type\<close> panic. Neither the
  not-addressable error nor the type-mismatch error is returned.
\<close>

theorem Backend_panics:
  "(Get P key = (Some pp, None) \<and> map_of (syms pp) ''Backend'' = Some (FuncInterface f) \<longrightarrow>
      Backend lib e P key (GVal n v) h tr = Inl ReflectPanic \<and>
      Backend lib e P key GNil h tr = Inl ReflectPanic \<and>
      (call_interface e tr f = GNil \<longrightarrow>
         Backend lib e P key (GPtr t (Some a)) h tr = Inl ReflectPanic)) \<and>
   (\<not> pm_closed Q \<and> pm Q key = Some (PluginImpl g) \<longrightarrow>
      Backend_pm lib e Q key (GVal n v) h tr = Inl ReflectPanic \<and>
      Backend_pm lib e Q key GNil h tr = Inl ReflectPanic \<and>
      (call_interface e tr g = GNil \<longrightarrow>
         Backend_pm lib e Q key (GPtr t (Some a)) h tr = Inl ReflectPanic))"
  by (simp add: Backend_def Backend_pm_def reflect_Elem_def CanSet_def setBackend_def
      elem_Type_def value_Type_def)

theorem Backend_panics_witness:
  "Backend lib_plain env_quiet backend_registry ''db'' (GVal ''int'' 0) empty_memory [] = Inl ReflectPanic \<and>
   Backend lib_plain env_quiet backend_registry ''db'' GNil empty_memory [] = Inl ReflectPanic \<and>
   Backend lib_plain env_quiet backend_registry ''db'' (GPtr (Iface ''Store'') (Some 0)) empty_memory [] = Inl ReflectPanic \<and>
   Backend_pm lib_plain env_quiet backend_registry_pm ''db'' (GVal ''int'' 0) empty_memory [] = Inl ReflectPanic \<and>
   Backend_pm lib_plain env_quiet backend_registry_pm ''db'' GNil empty_memory [] = Inl ReflectPanic \<and>
   Backend_pm lib_plain env_quiet backend_registry_pm ''db'' (GPtr (Iface ''Store'') (Some 0)) empty_memory [] = Inl ReflectPanic"
proof -
  have h1: "Get backend_registry ''db'' =
              (Some \<lparr>pluginpath = ''plugins/db.so'', syms = [(''Backend'', FuncInterface 3)]\<rparr>, None) \<and>
            map_of (syms \<lparr>pluginpath = ''plugins/db.so'', syms = [(''Backend'', FuncInterface 3)]\<rparr>)
              ''Backend'' = Some (FuncInterface 3)"
    by (simp add: Get_def pluginslice_get_def backend_registry_def example_plugin_def)
  have h2: "call_interface env_quiet [] 3 = GNil"
    by (simp add: env_quiet_def env_of_def)
  have h3: "\<not> pm_closed backend_registry_pm \<and> pm backend_registry_pm ''db'' = Some (PluginImpl 3)"
    by (simp add: backend_registry_pm_def)
  from Backend_panics
         [of backend_registry "''db''"
             "\<lparr>pluginpath = ''plugins/db.so'', syms = [(''Backend'', FuncInterface 3)]\<rparr>" 3
             lib_plain env_quiet "''int''" 0 empty_memory "[]" "Iface ''Store''" 0
             backend_registry_pm 3]
       h1 h2 h3
  show ?thesis by blast
qed

end
